theory Spec2Isabelle
  imports Main "HOL-Library.Word" "HOL-Library.List_Lexorder"
begin

section \<open>Strings\<close>

text \<open>
  A JavaScript string is a sequence of 16-bit code units. Comparison with \<open><=\<close> and
  \<open>>=\<close> is lexicographic on the code units (a proper prefix is smaller), which is the
  lexicographic order on lists of words.
\<close>

type_synonym code_unit = "16 word"
type_synonym js_string = "code_unit list"

text \<open>String literals of the source, written as Isabelle strings.\<close>

definition js :: "string \<Rightarrow> js_string" where
  "js s = map (\<lambda>c. of_nat (of_char c)) s"

text \<open>
  \<open>String.prototype.trim\<close> removes leading and trailing WhiteSpace and LineTerminator
  code points: TAB, LF, VT, FF, CR, SPACE, NBSP, U+1680, U+2000..U+200A, U+2028, U+2029,
  U+202F, U+205F, U+3000 and U+FEFF. All of them are single code units.
\<close>

definition isWhiteSpace :: "code_unit \<Rightarrow> bool" where
  "isWhiteSpace c =
     (c \<in> {0x9, 0xA, 0xB, 0xC, 0xD, 0x20, 0xA0, 0x1680, 0x2028, 0x2029, 0x202F, 0x205F,
            0x3000, 0xFEFF}
      \<or> (0x2000 \<le> c \<and> c \<le> 0x200A))"

definition trim :: "js_string \<Rightarrow> js_string" where
  "trim s = rev (dropWhile isWhiteSpace (rev (dropWhile isWhiteSpace s)))"

text \<open>
  \<open>String(n)\<close> and \<open>n.toString()\<close> for an integral number \<open>n\<close> below \<open>10^21\<close> in
  magnitude: the decimal digits, most significant first, after a minus sign when \<open>n\<close> is
  negative.
\<close>

function digits :: "nat \<Rightarrow> js_string" where
  "digits n = (if n < 10 then [0x30 + of_nat n] else digits (n div 10) @ [0x30 + of_nat (n mod 10)])"
  by pat_completeness auto
termination
  by (relation "measure (\<lambda>n. n)") auto

declare digits.simps [simp del]

definition numberToString :: "int \<Rightarrow> js_string" where
  "numberToString n = (if n < 0 then 0x2D # digits (nat (- n)) else digits (nat n))"

text \<open>
  \<open>s.padStart(targetLength, padString)\<close>: \<open>s\<close> itself when it is long enough or the
  filler is empty, else the filler repeated and cut to the missing length, then \<open>s\<close>.
\<close>

definition padStart :: "nat \<Rightarrow> js_string \<Rightarrow> js_string \<Rightarrow> js_string" where
  "padStart targetLength padString s =
     (if targetLength \<le> length s \<or> padString = [] then s
      else (let fillLen = targetLength - length s
            in take fillLen (concat (replicate fillLen padString)) @ s))"

section \<open>Data structures\<close>

record Habit =
  id' :: js_string
  name :: js_string
  icon :: js_string
  color :: js_string

record HabitEntry =
  habitId :: js_string
  date :: js_string

record HabitTrackerSettings =
  habits :: "Habit list"
  entries :: "HabitEntry list"

definition DEFAULT_SETTINGS :: HabitTrackerSettings where
  "DEFAULT_SETTINGS = \<lparr>habits = [], entries = []\<rparr>"

text \<open>
  The plugin holds the settings object. Two effects on the host are recorded beside it:
  every object handed to \<open>saveData\<close>, in order, and the text of every \<open>Notice\<close> shown.
\<close>

record HabitTrackerPlugin =
  settings :: HabitTrackerSettings
  saved :: "HabitTrackerSettings list"
  notices :: "js_string list"

definition saveSettings :: "HabitTrackerPlugin \<Rightarrow> HabitTrackerPlugin" where
  "saveSettings p = p\<lparr>saved := saved p @ [settings p]\<rparr>"

definition Notice :: "js_string \<Rightarrow> HabitTrackerPlugin \<Rightarrow> HabitTrackerPlugin" where
  "Notice msg p = p\<lparr>notices := notices p @ [msg]\<rparr>"

section \<open>Settings tab: deleting a habit\<close>

text \<open>
  \<open>xs.splice(start, deleteCount)\<close> with no inserted items: the elements from \<open>start\<close>
  on, at most \<open>deleteCount\<close> of them, are removed; a \<open>start\<close> past the end removes nothing.
\<close>

definition splice_js :: "nat \<Rightarrow> nat \<Rightarrow> 'a list \<Rightarrow> 'a list" where
  "splice_js start deleteCount xs = take start xs @ drop (start + deleteCount) xs"

text \<open>
  The click handler of the Delete button that \<open>display\<close> builds for the habit at position
  \<open>index\<close> of \<open>settings.habits\<close>. The closure holds that \<open>index\<close> and the \<open>habit\<close> object
  found there when \<open>display\<close> ran.
\<close>

definition onDeleteClick :: "nat \<Rightarrow> Habit \<Rightarrow> HabitTrackerPlugin \<Rightarrow> HabitTrackerPlugin" where
  "onDeleteClick index habit p =
     (let s1 = (settings p)\<lparr>habits := splice_js index 1 (habits (settings p))\<rparr>;
          s2 = s1\<lparr>entries := filter (\<lambda>e. habitId e \<noteq> id' habit) (entries s1)\<rparr>;
          p1 = saveSettings (p\<lparr>settings := s2\<rparr>)
      in Notice (js ''Deleted habit: '' @ name habit) p1)"

section \<open>Habit picker: toggling an entry\<close>

text \<open>\<open>onOpen\<close> reads the entries of the modal's date once.\<close>

definition existingEntries :: "HabitTrackerSettings \<Rightarrow> js_string \<Rightarrow> HabitEntry list" where
  "existingEntries s dateStr = filter (\<lambda>e. date e = dateStr) (entries s)"

text \<open>The state that \<open>onOpen\<close> gives the checkbox of a habit.\<close>

definition checkboxChecked :: "HabitTrackerSettings \<Rightarrow> js_string \<Rightarrow> Habit \<Rightarrow> bool" where
  "checkboxChecked s dateStr habit = list_ex (\<lambda>e. habitId e = id' habit) (existingEntries s dateStr)"

text \<open>
  The \<open>change\<close> handler of a habit's checkbox; \<open>checked\<close> is the state of the checkbox
  when the handler runs, that is, after the click has flipped it.
\<close>

definition onCheckboxChange ::
  "bool \<Rightarrow> Habit \<Rightarrow> js_string \<Rightarrow> HabitTrackerPlugin \<Rightarrow> HabitTrackerPlugin" where
  "onCheckboxChange checked habit dateStr p =
     (let s = settings p;
          s' = (if checked
                then s\<lparr>entries := entries s @ [\<lparr>habitId = id' habit, date = dateStr\<rparr>]\<rparr>
                else s\<lparr>entries := filter (\<lambda>e. \<not> (habitId e = id' habit \<and> date e = dateStr)) (entries s)\<rparr>)
      in saveSettings (p\<lparr>settings := s'\<rparr>))"

text \<open>
  Toggling an entry from the calendar: the picker opens on \<open>dateStr\<close>, the checkbox of
  \<open>habit\<close> shows whether the pair has an entry, and one click flips it and runs the handler.
\<close>

definition toggleEntry :: "Habit \<Rightarrow> js_string \<Rightarrow> HabitTrackerPlugin \<Rightarrow> HabitTrackerPlugin" where
  "toggleEntry habit dateStr p =
     onCheckboxChange (\<not> checkboxChecked (settings p) dateStr habit) habit dateStr p"

text \<open>The habits for which \<open>onOpen\<close> builds a checkbox: those of the settings, in order.\<close>

definition pickerItems :: "HabitTrackerSettings \<Rightarrow> js_string \<Rightarrow> (Habit \<times> bool) list" where
  "pickerItems s dateStr = map (\<lambda>habit. (habit, checkboxChecked s dateStr habit)) (habits s)"

section \<open>Add/Edit modal: saving a habit\<close>

text \<open>
  The click handler of the Save button. \<open>habit\<close> is the modal's \<open>this.habit\<close>: \<open>None\<close> for
  a new habit, else the object being edited, which is an element of \<open>settings.habits\<close> and
  is named here by its position there, so that assigning to its fields changes the
  element in place. \<open>now\<close> is the value of \<open>Date.now()\<close>; the three strings are the
  values of the input elements.
\<close>

definition onSaveClick ::
  "nat option \<Rightarrow> int \<Rightarrow> js_string \<Rightarrow> js_string \<Rightarrow> js_string \<Rightarrow> HabitTrackerPlugin \<Rightarrow> HabitTrackerPlugin" where
  "onSaveClick habit now nameValue iconValue colorValue p =
     (let name' = trim nameValue;
          icon' = trim iconValue;
          color' = colorValue
      in if name' = [] then Notice (js ''Please enter a habit name'') p
         else if icon' = [] then Notice (js ''Please enter an icon name'') p
         else
           (let s = settings p;
                s' = (case habit of
                        Some i \<Rightarrow>
                          s\<lparr>habits := (habits s)[i := (habits s ! i)\<lparr>name := name', icon := icon', color := color'\<rparr>]\<rparr>
                      | None \<Rightarrow>
                          s\<lparr>habits := habits s @
                             [\<lparr>id' = numberToString now, name = name', icon = icon', color = color'\<rparr>]\<rparr>);
                p1 = saveSettings (p\<lparr>settings := s'\<rparr>)
            in Notice ((case habit of Some i \<Rightarrow> js ''Updated'' | None \<Rightarrow> js ''Added'') @ js '' habit: '' @ name') p1))"

section \<open>Properties of the strings\<close>

text \<open>
  The value of a string of decimal digits. \<open>digits\<close> is inverted by it, so the decimal
  form of a number determines the number.
\<close>

definition decimalValue :: "js_string \<Rightarrow> nat" where
  "decimalValue s = foldl (\<lambda>a c. 10 * a + unat (c - 0x30)) 0 s"

lemma decimalValue_digits: "decimalValue (digits n) = n"
proof (induction n rule: digits.induct)
  case (1 n)
  show ?case
  proof (cases "n < 10")
    case True
    then have "unat (of_nat n :: code_unit) = n"
      by (simp add: unat_of_nat)
    with True show ?thesis
      by (subst digits.simps) (simp add: decimalValue_def)
  next
    case False
    have "unat (of_nat (n mod 10) :: code_unit) = n mod 10"
      by (simp add: unat_of_nat)
    with False 1 show ?thesis
      by (subst digits.simps) (simp add: decimalValue_def)
  qed
qed

lemma digits_inject: "digits m = digits n \<Longrightarrow> m = n"
  by (metis decimalValue_digits)

lemma digit_not_minus: "k < 10 \<Longrightarrow> (0x30 + of_nat k :: code_unit) \<noteq> 0x2D"
proof -
  assume "k < 10"
  then have "k \<in> {0,1,2,3,4,5,6,7,8,9}" by auto
  then show ?thesis by auto
qed

lemma hd_digits_not_minus: "digits n \<noteq> [] \<and> hd (digits n) \<noteq> 0x2D"
proof (induction n rule: digits.induct)
  case (1 n)
  show ?case
  proof (cases "n < 10")
    case True
    then show ?thesis
      by (subst (1 2) digits.simps) (simp add: digit_not_minus)
  next
    case False
    with 1 show ?thesis
      by (subst (1 2) digits.simps) simp
  qed
qed

lemma numberToString_inject: "numberToString m = numberToString n \<Longrightarrow> m = n"
proof -
  assume eq: "numberToString m = numberToString n"
  have neg: "0x2D # digits a \<noteq> digits b" for a b
    using hd_digits_not_minus [of b] by (cases "digits b") auto
  show ?thesis
  proof (cases "m < 0"; cases "n < 0")
    assume "m < 0" "n < 0"
    with eq have "nat (- m) = nat (- n)"
      by (simp add: numberToString_def digits_inject)
    with \<open>m < 0\<close> \<open>n < 0\<close> show ?thesis by simp
  next
    assume "m < 0" "\<not> n < 0"
    with eq neg show ?thesis by (simp add: numberToString_def)
  next
    assume "\<not> m < 0" "n < 0"
    with eq neg [of "nat (- n)" "nat m"] show ?thesis by (simp add: numberToString_def)
  next
    assume "\<not> m < 0" "\<not> n < 0"
    with eq have "nat m = nat n"
      by (simp add: numberToString_def digits_inject)
    with \<open>\<not> m < 0\<close> \<open>\<not> n < 0\<close> show ?thesis by simp
  qed
qed

text \<open>
  A string has no leading and no trailing white space when it is empty or neither its
  first nor its last code unit is white space. The result of \<open>trim\<close> is such a string.
\<close>

definition trimmed :: "js_string \<Rightarrow> bool" where
  "trimmed s = (s = [] \<or> (\<not> isWhiteSpace (hd s) \<and> \<not> isWhiteSpace (last s)))"

lemma last_dropWhile: "dropWhile P xs \<noteq> [] \<Longrightarrow> last (dropWhile P xs) = last xs"
  by (induction xs) (auto split: if_splits)

lemma trimmed_trim: "trimmed (trim s)"
proof (cases "trim s = []")
  case True
  then show ?thesis by (simp add: trimmed_def)
next
  case False
  let ?ys = "dropWhile isWhiteSpace s"
  let ?zs = "dropWhile isWhiteSpace (rev ?ys)"
  from False have zs: "?zs \<noteq> []" by (simp add: trim_def)
  have ys: "?ys \<noteq> []"
  proof
    assume a: "?ys = []"
    have "?zs = []" unfolding a by simp
    with zs show False by (simp only:)
  qed
  have "\<not> isWhiteSpace (hd ?zs)" using zs by (rule hd_dropWhile)
  then have l: "\<not> isWhiteSpace (last (trim s))"
    using zs by (simp add: trim_def last_rev)
  have "last ?zs = last (rev ?ys)" using zs by (rule last_dropWhile)
  also have "\<dots> = hd ?ys" using ys by (simp add: last_rev)
  finally have "hd (trim s) = hd ?ys" using zs by (simp add: trim_def hd_rev)
  moreover have "\<not> isWhiteSpace (hd ?ys)" using ys by (rule hd_dropWhile)
  ultimately show ?thesis using l by (simp add: trimmed_def)
qed

section \<open>Deleting a habit cascades to its entries\<close>

lemma splice_one: "splice_js index (Suc 0) xs = take index xs @ drop (Suc index) xs"
  by (simp add: splice_js_def)

lemma distinct_take_drop_notin:
  assumes "distinct xs" "i < length xs"
  shows "xs ! i \<notin> set (take i xs @ drop (Suc i) xs)"
proof -
  have "xs = take i xs @ xs ! i # drop (Suc i) xs"
    using assms(2) by (simp add: id_take_nth_drop)
  then have "distinct (take i xs @ xs ! i # drop (Suc i) xs)"
    using assms(1) by simp
  then show ?thesis by auto
qed

text \<open>
  Claim C1. Let \<open>habit\<close> be the habit at position \<open>index\<close> of the habit collection, as in
  the closure of its Delete button. The click removes exactly that element from the
  habit collection (the others keep their order, the length drops by one) and, in the
  same handler, every entry whose \<open>habitId\<close> is the habit's id. Afterwards the entries of
  no date \<open>d\<close> contain an entry referencing that id. When the ids of the collection are
  distinct, no habit with this id is left; when its habits are distinct, \<open>habit\<close> itself is
  not left. \<open>saveData\<close> is called once, with the settings after both removals.
\<close>

theorem delete_cascade:
  assumes "index < length (habits (settings p))"
    and "habits (settings p) ! index = habit"
  shows "(let p' = onDeleteClick index habit p in
     habits (settings p') = take index (habits (settings p)) @ drop (Suc index) (habits (settings p))
   \<and> length (habits (settings p')) + 1 = length (habits (settings p))
   \<and> entries (settings p') = filter (\<lambda>e. habitId e \<noteq> id' habit) (entries (settings p))
   \<and> (\<forall>d. \<not> list_ex (\<lambda>e. habitId e = id' habit) (existingEntries (settings p') d))
   \<and> (distinct (map id' (habits (settings p))) \<longrightarrow> id' habit \<notin> set (map id' (habits (settings p'))))
   \<and> (distinct (habits (settings p)) \<longrightarrow> habit \<notin> set (habits (settings p')))
   \<and> saved p' = saved p @ [settings p'])"
proof -
  let ?hs = "habits (settings p)"
  have a: "distinct (map id' ?hs) \<Longrightarrow> id' habit \<notin> set (map id' (take index ?hs @ drop (Suc index) ?hs))"
  proof -
    assume d: "distinct (map id' ?hs)"
    have "map id' ?hs ! index \<notin> set (take index (map id' ?hs) @ drop (Suc index) (map id' ?hs))"
      using d assms(1) by (intro distinct_take_drop_notin) simp_all
    then show ?thesis using assms by (simp add: take_map drop_map)
  qed
  have b: "distinct ?hs \<Longrightarrow> habit \<notin> set (take index ?hs @ drop (Suc index) ?hs)"
    using distinct_take_drop_notin [of ?hs index] assms by simp
  show ?thesis
    using a b assms(1)
    by (auto simp add: onDeleteClick_def Let_def saveSettings_def Notice_def splice_one
        existingEntries_def list_ex_iff)
qed

text \<open>
  The theorem at a store with two habits and three entries: deleting the first habit
  leaves the second habit and its one entry, and one save of exactly that.
\<close>

theorem delete_cascade_witness:
  "(0::nat) < length [\<lparr>id' = js ''1'', name = js ''Run'', icon = js ''zap'', color = js ''#fff''\<rparr>,
                      \<lparr>id' = js ''2'', name = js ''Read'', icon = js ''book'', color = js ''#000''\<rparr>]
   \<and> [\<lparr>id' = js ''1'', name = js ''Run'', icon = js ''zap'', color = js ''#fff''\<rparr>,
       \<lparr>id' = js ''2'', name = js ''Read'', icon = js ''book'', color = js ''#000''\<rparr>] ! 0
     = \<lparr>id' = js ''1'', name = js ''Run'', icon = js ''zap'', color = js ''#fff''\<rparr>
   \<and> settings (onDeleteClick 0 \<lparr>id' = js ''1'', name = js ''Run'', icon = js ''zap'', color = js ''#fff''\<rparr>
        \<lparr>settings =
           \<lparr>habits = [\<lparr>id' = js ''1'', name = js ''Run'', icon = js ''zap'', color = js ''#fff''\<rparr>,
                      \<lparr>id' = js ''2'', name = js ''Read'', icon = js ''book'', color = js ''#000''\<rparr>],
            entries = [\<lparr>habitId = js ''1'', date = js ''2024-03-05''\<rparr>,
                       \<lparr>habitId = js ''2'', date = js ''2024-03-05''\<rparr>,
                       \<lparr>habitId = js ''1'', date = js ''2024-03-06''\<rparr>]\<rparr>,
         saved = [], notices = []\<rparr>)
     = \<lparr>habits = [\<lparr>id' = js ''2'', name = js ''Read'', icon = js ''book'', color = js ''#000''\<rparr>],
        entries = [\<lparr>habitId = js ''2'', date = js ''2024-03-05''\<rparr>]\<rparr>
   \<and> saved (onDeleteClick 0 \<lparr>id' = js ''1'', name = js ''Run'', icon = js ''zap'', color = js ''#fff''\<rparr>
        \<lparr>settings =
           \<lparr>habits = [\<lparr>id' = js ''1'', name = js ''Run'', icon = js ''zap'', color = js ''#fff''\<rparr>,
                      \<lparr>id' = js ''2'', name = js ''Read'', icon = js ''book'', color = js ''#000''\<rparr>],
            entries = [\<lparr>habitId = js ''1'', date = js ''2024-03-05''\<rparr>,
                       \<lparr>habitId = js ''2'', date = js ''2024-03-05''\<rparr>,
                       \<lparr>habitId = js ''1'', date = js ''2024-03-06''\<rparr>]\<rparr>,
         saved = [], notices = []\<rparr>)
     = [\<lparr>habits = [\<lparr>id' = js ''2'', name = js ''Read'', icon = js ''book'', color = js ''#000''\<rparr>],
         entries = [\<lparr>habitId = js ''2'', date = js ''2024-03-05''\<rparr>]\<rparr>]"
  using delete_cascade [of 0
      "\<lparr>settings =
           \<lparr>habits = [\<lparr>id' = js ''1'', name = js ''Run'', icon = js ''zap'', color = js ''#fff''\<rparr>,
                      \<lparr>id' = js ''2'', name = js ''Read'', icon = js ''book'', color = js ''#000''\<rparr>],
            entries = [\<lparr>habitId = js ''1'', date = js ''2024-03-05''\<rparr>,
                       \<lparr>habitId = js ''2'', date = js ''2024-03-05''\<rparr>,
                       \<lparr>habitId = js ''1'', date = js ''2024-03-06''\<rparr>]\<rparr>,
         saved = [], notices = []\<rparr>"
      "\<lparr>id' = js ''1'', name = js ''Run'', icon = js ''zap'', color = js ''#fff''\<rparr>"]
  by (simp add: Let_def js_def HabitTrackerSettings.equality)

section \<open>Toggling an entry\<close>

lemma checkboxChecked_iff:
  "checkboxChecked s dateStr habit \<longleftrightarrow> (\<exists>e \<in> set (entries s). habitId e = id' habit \<and> date e = dateStr)"
  by (auto simp: checkboxChecked_def existingEntries_def list_ex_iff)

lemma entries_onCheckboxChange:
  "entries (settings (onCheckboxChange c habit dateStr p)) =
     (if c then entries (settings p) @ [\<lparr>habitId = id' habit, date = dateStr\<rparr>]
      else filter (\<lambda>e. \<not> (habitId e = id' habit \<and> date e = dateStr)) (entries (settings p)))"
  by (simp add: onCheckboxChange_def saveSettings_def Let_def)

lemma checkbox_in_sync:
  "checkboxChecked (settings (onCheckboxChange c habit dateStr p)) dateStr habit = c"
  by (auto simp: checkboxChecked_iff entries_onCheckboxChange)

lemma filter_absent: "(\<forall>e \<in> set xs. P e) \<Longrightarrow> filter P xs = xs"
  by (induction xs) auto

text \<open>
  After the handler has run, a picker opened anew would show the checkbox in the state
  the handler saw: the checkbox of an open picker and the store agree on the pair. A
  second click in the same picker therefore does what a toggle from a new picker does.
\<close>

lemma second_click_same_modal:
  "onCheckboxChange (\<not> c) habit dateStr (onCheckboxChange c habit dateStr p) =
   toggleEntry habit dateStr (onCheckboxChange c habit dateStr p)"
  by (simp add: toggleEntry_def checkbox_in_sync)




text \<open>
  Claim C5, as amended. The change handler of a checkbox makes no check that the habit's
  id belongs to a habit of the collection, and signals no error. For an id that belongs
  to none, it appends the entry when the checkbox is checked (an orphan entry) and
  removes the entries of the pair when it is not, as for any other habit; it shows no
  notice and saves.
\<close>

theorem toggle_orphan:
  assumes "id' habit \<notin> set (map id' (habits (settings p)))"
  shows "(let p' = onCheckboxChange checked habit dateStr p; e = \<lparr>habitId = id' habit, date = dateStr\<rparr> in
     entries (settings p') =
       (if checked then entries (settings p) @ [e] else filter (\<lambda>x. x \<noteq> e) (entries (settings p)))
   \<and> habits (settings p') = habits (settings p)
   \<and> notices p' = notices p
   \<and> saved p' = saved p @ [settings p'])"
proof -
  have pair: "(habitId x = id' habit \<and> date x = dateStr) \<longleftrightarrow> x = \<lparr>habitId = id' habit, date = dateStr\<rparr>"
    for x :: HabitEntry
    by (cases x) auto
  show ?thesis
    by (simp add: Let_def onCheckboxChange_def saveSettings_def pair)
qed

text \<open>
  A picker is open on 2024-03-05 while the habit \<open>9\<close> is deleted in the settings tab; the
  checkbox of that habit is then clicked. The handler appends an entry of the id \<open>9\<close>,
  which no habit has any more, and shows no notice.
\<close>

theorem toggle_orphan_witness:
  "js ''9'' \<notin> set (map id' (habits (settings
        (onDeleteClick 1 \<lparr>id' = js ''9'', name = js ''Gone'', icon = js ''x'', color = js ''#000''\<rparr>
          \<lparr>settings =
             \<lparr>habits = [\<lparr>id' = js ''1'', name = js ''Run'', icon = js ''zap'', color = js ''#fff''\<rparr>,
                        \<lparr>id' = js ''9'', name = js ''Gone'', icon = js ''x'', color = js ''#000''\<rparr>],
              entries = []\<rparr>,
           saved = [], notices = []\<rparr>))))
   \<and> entries (settings (onCheckboxChange True
        \<lparr>id' = js ''9'', name = js ''Gone'', icon = js ''x'', color = js ''#000''\<rparr> (js ''2024-03-05'')
        (onDeleteClick 1 \<lparr>id' = js ''9'', name = js ''Gone'', icon = js ''x'', color = js ''#000''\<rparr>
          \<lparr>settings =
             \<lparr>habits = [\<lparr>id' = js ''1'', name = js ''Run'', icon = js ''zap'', color = js ''#fff''\<rparr>,
                        \<lparr>id' = js ''9'', name = js ''Gone'', icon = js ''x'', color = js ''#000''\<rparr>],
              entries = []\<rparr>,
           saved = [], notices = []\<rparr>)))
     = [\<lparr>habitId = js ''9'', date = js ''2024-03-05''\<rparr>]
   \<and> notices (onCheckboxChange True
        \<lparr>id' = js ''9'', name = js ''Gone'', icon = js ''x'', color = js ''#000''\<rparr> (js ''2024-03-05'')
        (onDeleteClick 1 \<lparr>id' = js ''9'', name = js ''Gone'', icon = js ''x'', color = js ''#000''\<rparr>
          \<lparr>settings =
             \<lparr>habits = [\<lparr>id' = js ''1'', name = js ''Run'', icon = js ''zap'', color = js ''#fff''\<rparr>,
                        \<lparr>id' = js ''9'', name = js ''Gone'', icon = js ''x'', color = js ''#000''\<rparr>],
              entries = []\<rparr>,
           saved = [], notices = []\<rparr>))
     = notices
        (onDeleteClick 1 \<lparr>id' = js ''9'', name = js ''Gone'', icon = js ''x'', color = js ''#000''\<rparr>
          \<lparr>settings =
             \<lparr>habits = [\<lparr>id' = js ''1'', name = js ''Run'', icon = js ''zap'', color = js ''#fff''\<rparr>,
                        \<lparr>id' = js ''9'', name = js ''Gone'', icon = js ''x'', color = js ''#000''\<rparr>],
              entries = []\<rparr>,
           saved = [], notices = []\<rparr>)"
proof -
  have h: "id' \<lparr>id' = js ''9'', name = js ''Gone'', icon = js ''x'', color = js ''#000''\<rparr>
      \<notin> set (map id' (habits (settings
        (onDeleteClick 1 \<lparr>id' = js ''9'', name = js ''Gone'', icon = js ''x'', color = js ''#000''\<rparr>
          \<lparr>settings =
             \<lparr>habits = [\<lparr>id' = js ''1'', name = js ''Run'', icon = js ''zap'', color = js ''#fff''\<rparr>,
                        \<lparr>id' = js ''9'', name = js ''Gone'', icon = js ''x'', color = js ''#000''\<rparr>],
              entries = []\<rparr>,
           saved = [], notices = []\<rparr>))))"
    by (simp add: onDeleteClick_def Let_def saveSettings_def Notice_def splice_js_def js_def)
  have e: "entries (settings
        (onDeleteClick 1 \<lparr>id' = js ''9'', name = js ''Gone'', icon = js ''x'', color = js ''#000''\<rparr>
          \<lparr>settings =
             \<lparr>habits = [\<lparr>id' = js ''1'', name = js ''Run'', icon = js ''zap'', color = js ''#fff''\<rparr>,
                        \<lparr>id' = js ''9'', name = js ''Gone'', icon = js ''x'', color = js ''#000''\<rparr>],
              entries = []\<rparr>,
           saved = [], notices = []\<rparr>)) = []"
    by (simp add: onDeleteClick_def Let_def saveSettings_def Notice_def)
  show ?thesis
    using h toggle_orphan [OF h, of True "js ''2024-03-05''"]
    by (simp add: Let_def e del: One_nat_def)
qed

text \<open>
  The claim as stated fails at the same click: the picker, opened when the habit \<open>9\<close>
  was in the collection and had no entry on that day, shows its checkbox unchecked; after
  the habit is deleted, the click changes the entry collection, for an id that no habit
  has, and nothing is signalled.
\<close>

theorem toggle_orphan_counterexample:
  "\<not> checkboxChecked
        \<lparr>habits = [\<lparr>id' = js ''1'', name = js ''Run'', icon = js ''zap'', color = js ''#fff''\<rparr>,
                   \<lparr>id' = js ''9'', name = js ''Gone'', icon = js ''x'', color = js ''#000''\<rparr>],
         entries = []\<rparr>
        (js ''2024-03-05'') \<lparr>id' = js ''9'', name = js ''Gone'', icon = js ''x'', color = js ''#000''\<rparr>
   \<and> js ''9'' \<notin> set (map id' (habits (settings
        (onDeleteClick 1 \<lparr>id' = js ''9'', name = js ''Gone'', icon = js ''x'', color = js ''#000''\<rparr>
          \<lparr>settings =
             \<lparr>habits = [\<lparr>id' = js ''1'', name = js ''Run'', icon = js ''zap'', color = js ''#fff''\<rparr>,
                        \<lparr>id' = js ''9'', name = js ''Gone'', icon = js ''x'', color = js ''#000''\<rparr>],
              entries = []\<rparr>,
           saved = [], notices = []\<rparr>))))
   \<and> entries (settings (onCheckboxChange True
        \<lparr>id' = js ''9'', name = js ''Gone'', icon = js ''x'', color = js ''#000''\<rparr> (js ''2024-03-05'')
        (onDeleteClick 1 \<lparr>id' = js ''9'', name = js ''Gone'', icon = js ''x'', color = js ''#000''\<rparr>
          \<lparr>settings =
             \<lparr>habits = [\<lparr>id' = js ''1'', name = js ''Run'', icon = js ''zap'', color = js ''#fff''\<rparr>,
                        \<lparr>id' = js ''9'', name = js ''Gone'', icon = js ''x'', color = js ''#000''\<rparr>],
              entries = []\<rparr>,
           saved = [], notices = []\<rparr>)))
     \<noteq> entries (settings
        (onDeleteClick 1 \<lparr>id' = js ''9'', name = js ''Gone'', icon = js ''x'', color = js ''#000''\<rparr>
          \<lparr>settings =
             \<lparr>habits = [\<lparr>id' = js ''1'', name = js ''Run'', icon = js ''zap'', color = js ''#fff''\<rparr>,
                        \<lparr>id' = js ''9'', name = js ''Gone'', icon = js ''x'', color = js ''#000''\<rparr>],
              entries = []\<rparr>,
           saved = [], notices = []\<rparr>))
   \<and> notices (onCheckboxChange True
        \<lparr>id' = js ''9'', name = js ''Gone'', icon = js ''x'', color = js ''#000''\<rparr> (js ''2024-03-05'')
        (onDeleteClick 1 \<lparr>id' = js ''9'', name = js ''Gone'', icon = js ''x'', color = js ''#000''\<rparr>
          \<lparr>settings =
             \<lparr>habits = [\<lparr>id' = js ''1'', name = js ''Run'', icon = js ''zap'', color = js ''#fff''\<rparr>,
                        \<lparr>id' = js ''9'', name = js ''Gone'', icon = js ''x'', color = js ''#000''\<rparr>],
              entries = []\<rparr>,
           saved = [], notices = []\<rparr>))
     = notices
        (onDeleteClick 1 \<lparr>id' = js ''9'', name = js ''Gone'', icon = js ''x'', color = js ''#000''\<rparr>
          \<lparr>settings =
             \<lparr>habits = [\<lparr>id' = js ''1'', name = js ''Run'', icon = js ''zap'', color = js ''#fff''\<rparr>,
                        \<lparr>id' = js ''9'', name = js ''Gone'', icon = js ''x'', color = js ''#000''\<rparr>],
              entries = []\<rparr>,
           saved = [], notices = []\<rparr>)"
  by (simp add: onCheckboxChange_def onDeleteClick_def Let_def saveSettings_def Notice_def
      splice_js_def checkboxChecked_def existingEntries_def js_def)



section \<open>Saving a habit\<close>

lemma habits_onSaveClick_add:
  "trim nameValue \<noteq> [] \<Longrightarrow> trim iconValue \<noteq> [] \<Longrightarrow>
   habits (settings (onSaveClick None now nameValue iconValue colorValue p)) =
     habits (settings p) @
       [\<lparr>id' = numberToString now, name = trim nameValue, icon = trim iconValue, color = colorValue\<rparr>]"
  by (simp add: onSaveClick_def Let_def saveSettings_def Notice_def)

lemma habits_onSaveClick_edit:
  "trim nameValue \<noteq> [] \<Longrightarrow> trim iconValue \<noteq> [] \<Longrightarrow>
   habits (settings (onSaveClick (Some i) now nameValue iconValue colorValue p)) =
     (habits (settings p))[i := (habits (settings p) ! i)
        \<lparr>name := trim nameValue, icon := trim iconValue, color := colorValue\<rparr>]"
  by (simp add: onSaveClick_def Let_def saveSettings_def Notice_def)

lemma habits_onSaveClick_invalid:
  "trim nameValue = [] \<or> trim iconValue = [] \<Longrightarrow>
   habits (settings (onSaveClick habit now nameValue iconValue colorValue p)) = habits (settings p)"
  by (auto simp: onSaveClick_def Let_def Notice_def)

text \<open>
  Claim C3, as amended. With a name and an icon that are not empty after trimming, the
  Save handler of a new habit appends exactly one habit at the end of the collection (the
  length grows by one, the habits before it are unchanged), leaves the entries alone and
  saves once. The id of the new habit is the decimal form of the clock reading \<open>now\<close>.
  It differs from every existing id when each of those is the decimal form of another
  clock reading, and the ids stay distinct when they were distinct and none of them is
  the decimal form of \<open>now\<close>. The handler returns nothing; the new habit is the last
  element of the collection.
\<close>

theorem addHabit_appends:
  assumes "trim nameValue \<noteq> []" and "trim iconValue \<noteq> []"
  shows "(let p' = onSaveClick None now nameValue iconValue colorValue p;
              new = \<lparr>id' = numberToString now, name = trim nameValue, icon = trim iconValue,
                     color = colorValue\<rparr> in
     habits (settings p') = habits (settings p) @ [new]
   \<and> length (habits (settings p')) = length (habits (settings p)) + 1
   \<and> entries (settings p') = entries (settings p)
   \<and> saved p' = saved p @ [settings p']
   \<and> ((\<forall>h \<in> set (habits (settings p)). \<exists>t. t \<noteq> now \<and> id' h = numberToString t) \<longrightarrow>
        id' new \<notin> set (map id' (habits (settings p))))
   \<and> (distinct (map id' (habits (settings p))) \<and> numberToString now \<notin> set (map id' (habits (settings p))) \<longrightarrow>
        distinct (map id' (habits (settings p')))))"
proof -
  have fresh: "(\<forall>h \<in> set (habits (settings p)). \<exists>t. t \<noteq> now \<and> id' h = numberToString t) \<Longrightarrow>
      numberToString now \<notin> id' ` set (habits (settings p))"
    using numberToString_inject by fastforce
  show ?thesis
    using assms fresh
    by (auto simp: onSaveClick_def Let_def saveSettings_def Notice_def)
qed

text \<open>
  A second habit created one millisecond after the first: two habits, two ids.
\<close>

theorem addHabit_appends_witness:
  "trim (js '' Read '') \<noteq> [] \<and> trim (js ''book'') \<noteq> []
   \<and> habits (settings (onSaveClick None 1700000000001 (js '' Read '') (js ''book'') (js ''#6366f1'')
        \<lparr>settings = \<lparr>habits = [\<lparr>id' = numberToString 1700000000000, name = js ''Run'', icon = js ''zap'', color = js ''#fff''\<rparr>],
                      entries = []\<rparr>, saved = [], notices = []\<rparr>))
     = [\<lparr>id' = js ''1700000000000'', name = js ''Run'', icon = js ''zap'', color = js ''#fff''\<rparr>,
        \<lparr>id' = js ''1700000000001'', name = js ''Read'', icon = js ''book'', color = js ''#6366f1''\<rparr>]
   \<and> distinct (map id' (habits (settings (onSaveClick None 1700000000001 (js '' Read '') (js ''book'') (js ''#6366f1'')
        \<lparr>settings = \<lparr>habits = [\<lparr>id' = numberToString 1700000000000, name = js ''Run'', icon = js ''zap'', color = js ''#fff''\<rparr>],
                      entries = []\<rparr>, saved = [], notices = []\<rparr>))))"
proof -
  have n: "trim (js '' Read '') \<noteq> []" and i: "trim (js ''book'') \<noteq> []"
    by (simp_all add: trim_def isWhiteSpace_def js_def)
  have ex: "\<exists>t. t \<noteq> (1700000000001::int) \<and> numberToString 1700000000000 = numberToString t"
    by (rule exI [of _ 1700000000000]) simp
  have ne: "numberToString 1700000000001 \<noteq> numberToString 1700000000000"
    using numberToString_inject [of 1700000000001 1700000000000] by auto
  show ?thesis
    using n i ex ne addHabit_appends [OF n i, of 1700000000001 "js ''#6366f1''"
        "\<lparr>settings = \<lparr>habits = [\<lparr>id' = numberToString 1700000000000, name = js ''Run'', icon = js ''zap'', color = js ''#fff''\<rparr>],
                      entries = []\<rparr>, saved = [], notices = []\<rparr>"]
    by (simp add: Let_def numberToString_def digits.simps trim_def isWhiteSpace_def js_def)
qed

text \<open>
  The claim as stated fails: two habits created at the same clock reading get the same
  id. The id of the habit appended second is among the ids of the collection it was
  appended to.
\<close>

theorem addHabit_fresh_id_counterexample:
  "id' (last (habits (settings
      (onSaveClick None 1700000000000 (js ''Read'') (js ''book'') (js ''#6366f1'')
        (onSaveClick None 1700000000000 (js ''Run'') (js ''zap'') (js ''#6366f1'')
          \<lparr>settings = DEFAULT_SETTINGS, saved = [], notices = []\<rparr>)))))
   \<in> set (map id' (habits (settings
        (onSaveClick None 1700000000000 (js ''Run'') (js ''zap'') (js ''#6366f1'')
          \<lparr>settings = DEFAULT_SETTINGS, saved = [], notices = []\<rparr>))))"
  by (simp add: onSaveClick_def Let_def saveSettings_def Notice_def DEFAULT_SETTINGS_def
      trim_def isWhiteSpace_def js_def)

text \<open>
  Claim C4. When the name or the icon is empty after trimming, the Save handler of a new
  habit shows the notice for the first empty field and returns: the settings (habits and
  entries) are unchanged and nothing is saved.
\<close>

theorem addHabit_validation:
  assumes "trim nameValue = [] \<or> trim iconValue = []"
  shows "(let p' = onSaveClick None now nameValue iconValue colorValue p in
     settings p' = settings p
   \<and> saved p' = saved p
   \<and> notices p' = notices p @
        [if trim nameValue = [] then js ''Please enter a habit name'' else js ''Please enter an icon name''])"
  using assms by (auto simp: onSaveClick_def Let_def Notice_def)

text \<open>
  The two cases of the specification: an empty name with the icon \<open>book\<close>, and the name
  \<open>Name\<close> with an icon of one space.
\<close>

theorem addHabit_validation_witness:
  "(trim [] = [] \<or> trim (js ''book'') = [])
   \<and> settings (onSaveClick None 1700000000000 [] (js ''book'') (js ''#fff'')
        \<lparr>settings = DEFAULT_SETTINGS, saved = [], notices = []\<rparr>) = DEFAULT_SETTINGS
   \<and> saved (onSaveClick None 1700000000000 [] (js ''book'') (js ''#fff'')
        \<lparr>settings = DEFAULT_SETTINGS, saved = [], notices = []\<rparr>) = []
   \<and> notices (onSaveClick None 1700000000000 [] (js ''book'') (js ''#fff'')
        \<lparr>settings = DEFAULT_SETTINGS, saved = [], notices = []\<rparr>) = [js ''Please enter a habit name'']
   \<and> (trim (js ''Name'') = [] \<or> trim (js '' '') = [])
   \<and> settings (onSaveClick None 1700000000000 (js ''Name'') (js '' '') (js ''#fff'')
        \<lparr>settings = DEFAULT_SETTINGS, saved = [], notices = []\<rparr>) = DEFAULT_SETTINGS
   \<and> saved (onSaveClick None 1700000000000 (js ''Name'') (js '' '') (js ''#fff'')
        \<lparr>settings = DEFAULT_SETTINGS, saved = [], notices = []\<rparr>) = []
   \<and> notices (onSaveClick None 1700000000000 (js ''Name'') (js '' '') (js ''#fff'')
        \<lparr>settings = DEFAULT_SETTINGS, saved = [], notices = []\<rparr>) = [js ''Please enter an icon name'']"
proof -
  have a: "trim [] = [] \<or> trim (js ''book'') = []"
    by (simp add: trim_def)
  have b: "trim (js ''Name'') = [] \<or> trim (js '' '') = []"
    by (simp add: trim_def isWhiteSpace_def js_def)
  have c: "trim (js ''Name'') \<noteq> []"
    by (simp add: trim_def isWhiteSpace_def js_def)
  have t0: "trim [] = []"
    by (simp add: trim_def)
  show ?thesis
    using b
      addHabit_validation [OF a, of 1700000000000 "js ''#fff''" "\<lparr>settings = DEFAULT_SETTINGS, saved = [], notices = []\<rparr>"]
      addHabit_validation [OF b, of 1700000000000 "js ''#fff''" "\<lparr>settings = DEFAULT_SETTINGS, saved = [], notices = []\<rparr>"]
    by (simp add: Let_def t0 c)
qed

text \<open>
  Every habit of the collection has a name and an icon without leading or trailing white
  space.
\<close>

definition habitsTrimmed :: "HabitTrackerPlugin \<Rightarrow> bool" where
  "habitsTrimmed p = list_all (\<lambda>h. trimmed (name h) \<and> trimmed (icon h)) (habits (settings p))"

lemma habitsTrimmed_onSaveClick:
  assumes "habitsTrimmed p"
  shows "habitsTrimmed (onSaveClick habit now nameValue iconValue colorValue p)"
proof (cases "trim nameValue = [] \<or> trim iconValue = []")
  case True
  with assms show ?thesis by (simp add: habitsTrimmed_def habits_onSaveClick_invalid)
next
  case False
  show ?thesis
  proof (cases habit)
    case None
    with False assms show ?thesis
      by (simp add: habitsTrimmed_def habits_onSaveClick_add trimmed_trim)
  next
    case (Some i)
    have "list_all P (xs[i := y])" if "list_all P xs" "P y" for P and xs :: "Habit list" and y
      using that by (auto simp: list_all_iff dest!: set_update_subset_insert [THEN subsetD])
    with Some False assms show ?thesis
      by (simp add: habitsTrimmed_def habits_onSaveClick_edit trimmed_trim)
  qed
qed

text \<open>
  Claim C10. When the Save handler goes through, the habit it appends (new habit) or the
  habit it assigns to (edited habit, at position \<open>i\<close>) has the trimmed name, the trimmed
  icon and the colour as given. The trimmed strings have no leading or trailing white
  space, and if no habit of the collection had such a name or icon before the handler
  ran, none has afterwards.
\<close>

theorem save_stores_trimmed:
  assumes "trim nameValue \<noteq> []" and "trim iconValue \<noteq> []"
  shows "last (habits (settings (onSaveClick None now nameValue iconValue colorValue p))) =
           \<lparr>id' = numberToString now, name = trim nameValue, icon = trim iconValue, color = colorValue\<rparr>
   \<and> (i < length (habits (settings p)) \<longrightarrow>
        habits (settings (onSaveClick (Some i) now nameValue iconValue colorValue p)) ! i =
           (habits (settings p) ! i)\<lparr>name := trim nameValue, icon := trim iconValue, color := colorValue\<rparr>)
   \<and> trimmed (trim nameValue) \<and> trimmed (trim iconValue)
   \<and> (habitsTrimmed p \<longrightarrow> habitsTrimmed (onSaveClick habit now nameValue iconValue colorValue p))"
  using assms
  by (simp add: habits_onSaveClick_add habits_onSaveClick_edit trimmed_trim habitsTrimmed_onSaveClick)

theorem save_stores_trimmed_witness:
  "trim (js '' Read '') \<noteq> [] \<and> trim (js ''book  '') \<noteq> []
   \<and> last (habits (settings (onSaveClick None 1700000000000 (js '' Read '') (js ''book  '') (js ''#6366f1'')
        \<lparr>settings = \<lparr>habits = [\<lparr>id' = js ''1'', name = js ''Run'', icon = js ''zap'', color = js ''#fff''\<rparr>],
                      entries = []\<rparr>, saved = [], notices = []\<rparr>)))
     = \<lparr>id' = js ''1700000000000'', name = js ''Read'', icon = js ''book'', color = js ''#6366f1''\<rparr>
   \<and> (0::nat) < length [\<lparr>id' = js ''1'', name = js ''Run'', icon = js ''zap'', color = js ''#fff''\<rparr>]
   \<and> habits (settings (onSaveClick (Some 0) 1700000000000 (js '' Read '') (js ''book  '') (js ''#6366f1'')
        \<lparr>settings = \<lparr>habits = [\<lparr>id' = js ''1'', name = js ''Run'', icon = js ''zap'', color = js ''#fff''\<rparr>],
                      entries = []\<rparr>, saved = [], notices = []\<rparr>)) ! 0
     = \<lparr>id' = js ''1'', name = js ''Read'', icon = js ''book'', color = js ''#6366f1''\<rparr>
   \<and> habitsTrimmed
        \<lparr>settings = \<lparr>habits = [\<lparr>id' = js ''1'', name = js ''Run'', icon = js ''zap'', color = js ''#fff''\<rparr>],
                      entries = []\<rparr>, saved = [], notices = []\<rparr>
   \<and> habitsTrimmed (onSaveClick None 1700000000000 (js '' Read '') (js ''book  '') (js ''#6366f1'')
        \<lparr>settings = \<lparr>habits = [\<lparr>id' = js ''1'', name = js ''Run'', icon = js ''zap'', color = js ''#fff''\<rparr>],
                      entries = []\<rparr>, saved = [], notices = []\<rparr>)"
proof -
  have n: "trim (js '' Read '') = js ''Read''" and i: "trim (js ''book  '') = js ''book''"
    by (simp_all add: trim_def isWhiteSpace_def js_def)
  have n0: "trim (js '' Read '') \<noteq> []" and i0: "trim (js ''book  '') \<noteq> []"
    by (simp_all add: n i) (simp_all add: js_def)
  have t: "habitsTrimmed
        \<lparr>settings = \<lparr>habits = [\<lparr>id' = js ''1'', name = js ''Run'', icon = js ''zap'', color = js ''#fff''\<rparr>],
                      entries = []\<rparr>, saved = [], notices = []\<rparr>"
    by (simp add: habitsTrimmed_def trimmed_def isWhiteSpace_def js_def)
  have d: "numberToString 1700000000000 = js ''1700000000000''"
    by (simp add: numberToString_def digits.simps js_def)
  show ?thesis
    using n0 i0 t
      save_stores_trimmed [OF n0 i0, where i = 0 and now = 1700000000000
        and colorValue = "js ''#6366f1''" and habit = None and p =
        "\<lparr>settings = \<lparr>habits = [\<lparr>id' = js ''1'', name = js ''Run'', icon = js ''zap'', color = js ''#fff''\<rparr>],
                      entries = []\<rparr>, saved = [], notices = []\<rparr>"]
    by (simp add: n i d)
qed

text \<open>
  The stores that the handlers can produce from the empty default store. Delete buttons
  exist for the positions of the collection only. In all of these stores the names and
  icons of the habits are without leading or trailing white space.
\<close>

inductive reachable :: "HabitTrackerPlugin \<Rightarrow> bool" where
  init: "reachable \<lparr>settings = DEFAULT_SETTINGS, saved = [], notices = []\<rparr>"
| save: "reachable p \<Longrightarrow> reachable (onSaveClick habit now nameValue iconValue colorValue p)"
| delete: "reachable p \<Longrightarrow> index < length (habits (settings p)) \<Longrightarrow>
     reachable (onDeleteClick index (habits (settings p) ! index) p)"
| toggle: "reachable p \<Longrightarrow> reachable (onCheckboxChange c habit dateStr p)"

lemma habitsTrimmed_reachable: "reachable p \<Longrightarrow> habitsTrimmed p"
proof (induction rule: reachable.induct)
  case init
  show ?case by (simp add: habitsTrimmed_def DEFAULT_SETTINGS_def)
next
  case (save p habit now nameValue iconValue colorValue)
  then show ?case by (simp add: habitsTrimmed_onSaveClick)
next
  case (delete p index)
  have "list_all P (take i xs @ drop (Suc i) xs)" if "list_all P xs"
    for P and xs :: "Habit list" and i
    using that by (auto simp: list_all_iff dest: in_set_takeD in_set_dropD)
  with delete show ?case
    by (simp add: habitsTrimmed_def onDeleteClick_def Let_def saveSettings_def Notice_def splice_one)
next
  case (toggle p c habit dateStr)
  then show ?case
    by (simp add: habitsTrimmed_def onCheckboxChange_def Let_def saveSettings_def)
qed

section \<open>Dates of the runtime\<close>

text \<open>
  The source computes with \<open>Date\<close> objects: \<open>new Date(year, month, date)\<close>, \<open>getDate()\<close>,
  \<open>getDay()\<close>, \<open>getFullYear()\<close> and \<open>getMonth()\<close>. They are modelled after ECMA-262 (Date
  objects): a time value is a number of milliseconds since the epoch, 1 January 1970 UTC,
  and the functions below are the abstract operations of the standard under their names.
  The constructor reads its arguments in local time and the getters answer in local time.
  The time zone of the host is a parameter: \<open>tza t isUTC\<close> is the standard's
  \<open>LocalTZA(t, isUTC)\<close>, the offset of local time from UTC in milliseconds, at the UTC
  time \<open>t\<close> when \<open>isUTC\<close> holds and at the local time \<open>t\<close> otherwise (for a local time that
  a transition skips, the offset before the transition). A number that may be \<open>NaN\<close>, as
  the time value of an invalid Date, is an optional integer, \<open>None\<close> for \<open>NaN\<close>.
\<close>

type_synonym time_zone = "int \<Rightarrow> bool \<Rightarrow> int"

definition msPerDay :: int where
  "msPerDay = 86400000"

definition Day :: "int \<Rightarrow> int" where
  "Day t = t div msPerDay"

definition DaysInYear :: "int \<Rightarrow> int" where
  "DaysInYear y =
     (if y mod 4 \<noteq> 0 then 365
      else if y mod 100 \<noteq> 0 then 366
      else if y mod 400 \<noteq> 0 then 365
      else 366)"

definition DayFromYear :: "int \<Rightarrow> int" where
  "DayFromYear y = 365 * (y - 1970) + (y - 1969) div 4 - (y - 1901) div 100 + (y - 1601) div 400"

definition TimeFromYear :: "int \<Rightarrow> int" where
  "TimeFromYear y = msPerDay * DayFromYear y"

text \<open>
  The day number of 1 January grows by the length of the year, which gives the order of
  the years and the termination of the search for the year of a time value.
\<close>

lemma div_step:
  fixes a k :: int
  assumes "0 < k"
  shows "(a + 1) div k = a div k + (if (a + 1) mod k = 0 then 1 else 0)"
proof (cases "a mod k + 1 = k")
  case True
  have eq: "a + 1 = k * (a div k + 1) + 0"
    using True by (simp add: algebra_simps) (metis add.commute mult_div_mod_eq add.assoc)
  have "(a + 1) div k = a div k + 1"
    by (rule int_div_pos_eq [OF eq]) (use assms in simp_all)
  moreover have "(a + 1) mod k = 0"
    by (rule int_mod_pos_eq [OF eq]) (use assms in simp_all)
  ultimately show ?thesis by simp
next
  case False
  have r: "0 \<le> a mod k" "a mod k < k" using assms by simp_all
  with False have lt: "a mod k + 1 < k" by linarith
  have eq: "a + 1 = k * (a div k) + (a mod k + 1)" by simp
  have "(a + 1) div k = a div k"
    by (rule int_div_pos_eq [OF eq]) (use lt r in simp_all)
  moreover have "(a + 1) mod k = a mod k + 1"
    by (rule int_mod_pos_eq [OF eq]) (use lt r in simp_all)
  ultimately show ?thesis using r by simp
qed

lemma DayFromYear_Suc: "DayFromYear (y + 1) = DayFromYear y + DaysInYear y"
proof -
  have m4: "(y - 1968) mod 4 = y mod 4"
    using mod_mult_self1 [of y "- 492" 4] by simp
  have m100: "(y - 1900) mod 100 = y mod 100"
    using mod_mult_self1 [of y "- 19" 100] by simp
  have m400: "(y - 1600) mod 400 = y mod 400"
    using mod_mult_self1 [of y "- 4" 400] by simp
  have a: "(y - 1968) div 4 = (y - 1969) div 4 + (if y mod 4 = 0 then 1 else 0)"
    using div_step [of 4 "y - 1969"] by (simp add: m4)
  have b: "(y - 1900) div 100 = (y - 1901) div 100 + (if y mod 100 = 0 then 1 else 0)"
    using div_step [of 100 "y - 1901"] by (simp add: m100)
  have c: "(y - 1600) div 400 = (y - 1601) div 400 + (if y mod 400 = 0 then 1 else 0)"
    using div_step [of 400 "y - 1601"] by (simp add: m400)
  have d: "y mod 100 = 0 \<Longrightarrow> y mod 4 = 0"
    using dvd_trans [of 4 100 y] by (simp add: mod_eq_0_iff_dvd)
  have e: "y mod 400 = 0 \<Longrightarrow> y mod 100 = 0"
    using dvd_trans [of 100 400 y] by (simp add: mod_eq_0_iff_dvd)
  show ?thesis
    using d e by (auto simp: DayFromYear_def DaysInYear_def a b c)
qed

lemma DaysInYear_bounds: "365 \<le> DaysInYear y" "DaysInYear y \<le> 366"
  by (simp_all add: DaysInYear_def)

lemma DayFromYear_pred: "DayFromYear (y - 1) < DayFromYear y"
  using DayFromYear_Suc [of "y - 1"] DaysInYear_bounds(1) [of "y - 1"] by simp

lemma TimeFromYear_pred: "TimeFromYear (y - 1) < TimeFromYear y"
  using DayFromYear_pred [of y] by (simp add: TimeFromYear_def msPerDay_def)

text \<open>
  \<open>YearFromTime(t)\<close> is the largest year \<open>y\<close> with \<open>TimeFromYear(y) \<le> t\<close>. It is computed
  by a search downwards from a year that is not too small, and \<open>YearFromTime_bounds\<close>
  and \<open>YearFromTime_eqI\<close> below show that the search finds that largest year.
\<close>

function yearSearch :: "int \<Rightarrow> int \<Rightarrow> int" where
  "yearSearch y t = (if TimeFromYear y \<le> t then y else yearSearch (y - 1) t)"
  by pat_completeness auto
termination
  by (relation "measure (\<lambda>(y, t). nat (TimeFromYear y - t))")
    (use TimeFromYear_pred in \<open>auto simp: nat_less_iff intro: order_less_le_trans\<close>)

declare yearSearch.simps [simp del]

definition YearFromTime :: "int \<Rightarrow> int" where
  "YearFromTime t =
     yearSearch (1970 + (if 0 \<le> Day t then Day t div 365 else Day t div 366)) t"

lemma yearSearch_le: "TimeFromYear (yearSearch y t) \<le> t"
  by (induction y t rule: yearSearch.induct) (subst yearSearch.simps, simp)

lemma yearSearch_greatest: "t < TimeFromYear (y + 1) \<Longrightarrow> t < TimeFromYear (yearSearch y t + 1)"
proof (induction y t rule: yearSearch.induct)
  case (1 y t)
  show ?case
  proof (cases "TimeFromYear y \<le> t")
    case True
    with 1 show ?thesis by (subst yearSearch.simps) simp
  next
    case False
    then have "t < TimeFromYear (y - 1 + 1)" by simp
    with False 1 show ?thesis by (subst yearSearch.simps) simp
  qed
qed

lemma DayFromYear_1970: "DayFromYear 1970 = 0"
  by (simp add: DayFromYear_def)

lemma DayFromYear_after: "365 * int n \<le> DayFromYear (1970 + int n)"
proof (induction n)
  case 0
  show ?case by (simp add: DayFromYear_1970)
next
  case (Suc n)
  have "DayFromYear (1970 + int (Suc n)) = DayFromYear (1970 + int n) + DaysInYear (1970 + int n)"
    using DayFromYear_Suc [of "1970 + int n"] by (simp add: add.assoc)
  with Suc DaysInYear_bounds(1) [of "1970 + int n"] show ?case by simp
qed

lemma DayFromYear_before: "- 366 * int n \<le> DayFromYear (1970 - int n)"
proof (induction n)
  case 0
  show ?case by (simp add: DayFromYear_1970)
next
  case (Suc n)
  have "DayFromYear (1970 - int n) = DayFromYear (1970 - int (Suc n)) + DaysInYear (1970 - int (Suc n))"
    using DayFromYear_Suc [of "1970 - int (Suc n)"] by simp
  with Suc DaysInYear_bounds(2) [of "1970 - int (Suc n)"] show ?case by simp
qed

lemma DayFromYear_mono: "y \<le> y' \<Longrightarrow> DayFromYear y \<le> DayFromYear y'"
proof -
  have "DayFromYear y \<le> DayFromYear (y + int n)" for n
  proof (induction n)
    case 0
    show ?case by simp
  next
    case (Suc n)
    have "DayFromYear (y + int (Suc n)) = DayFromYear (y + int n) + DaysInYear (y + int n)"
      using DayFromYear_Suc [of "y + int n"] by (simp add: ac_simps)
    with Suc DaysInYear_bounds(1) [of "y + int n"] show ?case by simp
  qed
  from this [of "nat (y' - y)"] show "y \<le> y' \<Longrightarrow> DayFromYear y \<le> DayFromYear y'" by simp
qed

lemma Day_less: "Day t < d \<Longrightarrow> t < msPerDay * d"
proof -
  assume "Day t < d"
  then have "Day t + 1 \<le> d" by simp
  then have "msPerDay * (Day t + 1) \<le> msPerDay * d"
    by (simp add: msPerDay_def)
  moreover have "t < msPerDay * (Day t + 1)"
    using pos_mod_bound [of msPerDay t] mult_div_mod_eq [of msPerDay t]
    by (simp add: Day_def msPerDay_def algebra_simps)
  ultimately show ?thesis by simp
qed

lemma YearFromTime_start:
  "t < TimeFromYear (1970 + (if 0 \<le> Day t then Day t div 365 else Day t div 366) + 1)"
proof (cases "0 \<le> Day t")
  case True
  define n where "n = nat (Day t div 365 + 1)"
  have n: "int n = Day t div 365 + 1"
    using True by (simp add: n_def pos_imp_zdiv_nonneg_iff)
  have "Day t < 365 * (Day t div 365 + 1)"
    using pos_mod_bound [of 365 "Day t"] mult_div_mod_eq [of 365 "Day t"] by (simp add: algebra_simps)
  also have "\<dots> \<le> DayFromYear (1970 + int n)"
    using DayFromYear_after [of n] by (simp add: n)
  finally have "t < msPerDay * DayFromYear (1970 + int n)" by (rule Day_less)
  with True show ?thesis by (simp add: TimeFromYear_def n add.assoc)
next
  case False
  then have neg: "Day t div 366 + 1 \<le> 0"
    by (simp add: div_neg_pos_less0 add1_zle_eq)
  define n where "n = nat (- (Day t div 366 + 1))"
  have n: "int n = - (Day t div 366 + 1)"
    using neg by (simp add: n_def)
  have "Day t < 366 * (Day t div 366 + 1)"
    using pos_mod_bound [of 366 "Day t"] mult_div_mod_eq [of 366 "Day t"] by (simp add: algebra_simps)
  also have "\<dots> \<le> DayFromYear (1970 - int n)"
    using DayFromYear_before [of n] by (simp add: n)
  finally have "t < msPerDay * DayFromYear (1970 - int n)" by (rule Day_less)
  moreover have "1970 - int n = 1970 + Day t div 366 + 1" by (simp add: n)
  ultimately show ?thesis using False by (simp add: TimeFromYear_def)
qed

lemma YearFromTime_bounds:
  "TimeFromYear (YearFromTime t) \<le> t" "t < TimeFromYear (YearFromTime t + 1)"
  unfolding YearFromTime_def
  by (rule yearSearch_le, rule yearSearch_greatest, rule YearFromTime_start)

lemma YearFromTime_eqI:
  assumes "TimeFromYear y \<le> t" and "t < TimeFromYear (y + 1)"
  shows "YearFromTime t = y"
proof (rule ccontr)
  assume ne: "YearFromTime t \<noteq> y"
  have tm: "a + 1 \<le> b \<Longrightarrow> TimeFromYear (a + 1) \<le> TimeFromYear b" for a b
    using DayFromYear_mono [of "a + 1" b] by (simp add: TimeFromYear_def msPerDay_def)
  show False
  proof (cases "YearFromTime t < y")
    case True
    then have "TimeFromYear (YearFromTime t + 1) \<le> TimeFromYear y" by (intro tm) simp
    with assms(1) YearFromTime_bounds(2) [of t] show False by simp
  next
    case False
    with ne have "TimeFromYear (y + 1) \<le> TimeFromYear (YearFromTime t)" by (intro tm) simp
    with assms(2) YearFromTime_bounds(1) [of t] show False by simp
  qed
qed

text \<open>Month, day of the month and day of the week of a time value.\<close>

definition DayWithinYear :: "int \<Rightarrow> int" where
  "DayWithinYear t = Day t - DayFromYear (YearFromTime t)"

definition InLeapYear :: "int \<Rightarrow> int" where
  "InLeapYear t = (if DaysInYear (YearFromTime t) = 366 then 1 else 0)"

definition MonthFromTime :: "int \<Rightarrow> int" where
  "MonthFromTime t =
     (let d = DayWithinYear t; l = InLeapYear t
      in if d < 31 then 0
         else if d < 59 + l then 1
         else if d < 90 + l then 2
         else if d < 120 + l then 3
         else if d < 151 + l then 4
         else if d < 181 + l then 5
         else if d < 212 + l then 6
         else if d < 243 + l then 7
         else if d < 273 + l then 8
         else if d < 304 + l then 9
         else if d < 334 + l then 10
         else 11)"

definition DateFromTime :: "int \<Rightarrow> int" where
  "DateFromTime t =
     (let d = DayWithinYear t; l = InLeapYear t; m = MonthFromTime t
      in if m = 0 then d + 1
         else if m = 1 then d - 30
         else if m = 2 then d - 58 - l
         else if m = 3 then d - 89 - l
         else if m = 4 then d - 119 - l
         else if m = 5 then d - 150 - l
         else if m = 6 then d - 180 - l
         else if m = 7 then d - 211 - l
         else if m = 8 then d - 242 - l
         else if m = 9 then d - 272 - l
         else if m = 10 then d - 303 - l
         else d - 333 - l)"

definition WeekDay :: "int \<Rightarrow> int" where
  "WeekDay t = (Day t + 4) mod 7"

text \<open>
  \<open>MakeDay(year, month, date)\<close> finds the day number of the first day of month
  \<open>month mod 12\<close> of year \<open>year + floor(month / 12)\<close> and adds \<open>dt - 1\<close>. The day number
  of the first day is computed from the table of \<open>monthStartDay\<close>;
  \<open>MakeDay_finds_first_of_month\<close> below shows that it is the day the standard asks for.
\<close>

definition monthStartDay :: "int \<Rightarrow> int \<Rightarrow> int" where
  "monthStartDay ym mn =
     (let l = (if DaysInYear ym = 366 then 1 else 0)
      in DayFromYear ym +
         (if mn = 0 then 0
          else if mn = 1 then 31
          else if mn = 2 then 59 + l
          else if mn = 3 then 90 + l
          else if mn = 4 then 120 + l
          else if mn = 5 then 151 + l
          else if mn = 6 then 181 + l
          else if mn = 7 then 212 + l
          else if mn = 8 then 243 + l
          else if mn = 9 then 273 + l
          else if mn = 10 then 304 + l
          else 334 + l))"

definition MakeDay :: "int \<Rightarrow> int \<Rightarrow> int \<Rightarrow> int" where
  "MakeDay year month dt =
     (let ym = year + month div 12; mn = month mod 12
      in monthStartDay ym mn + dt - 1)"

definition MakeDate :: "int \<Rightarrow> int \<Rightarrow> int" where
  "MakeDate day time = day * msPerDay + time"

text \<open>Local time and UTC, and the range of the time values of a Date.\<close>

definition LocalTime :: "time_zone \<Rightarrow> int \<Rightarrow> int" where
  "LocalTime tza t = t + tza t True"

definition UTC :: "time_zone \<Rightarrow> int \<Rightarrow> int" where
  "UTC tza t = t - tza t False"

definition TimeClip :: "int \<Rightarrow> int option" where
  "TimeClip time = (if \<bar>time\<bar> > 8640000000000000 then None else Some time)"

text \<open>
  The constructor \<open>new Date(year, month, date)\<close> takes a year from 0 to 99 as a year
  of the twentieth century, reads the day at midnight as a local time and keeps its UTC
  time value, or \<open>NaN\<close> when that is out of range. The getters of an invalid Date
  return \<open>NaN\<close>.
\<close>

definition fullYear :: "int \<Rightarrow> int" where
  "fullYear y = (if 0 \<le> y \<and> y \<le> 99 then 1900 + y else y)"

definition newDate :: "time_zone \<Rightarrow> int \<Rightarrow> int \<Rightarrow> int \<Rightarrow> int option" where
  "newDate tza year month dt = TimeClip (UTC tza (MakeDate (MakeDay (fullYear year) month dt) 0))"

definition getDate :: "time_zone \<Rightarrow> int option \<Rightarrow> int option" where
  "getDate tza d = (case d of None \<Rightarrow> None | Some t \<Rightarrow> Some (DateFromTime (LocalTime tza t)))"

definition getDay :: "time_zone \<Rightarrow> int option \<Rightarrow> int option" where
  "getDay tza d = (case d of None \<Rightarrow> None | Some t \<Rightarrow> Some (WeekDay (LocalTime tza t)))"

definition getFullYear :: "time_zone \<Rightarrow> int option \<Rightarrow> int option" where
  "getFullYear tza d = (case d of None \<Rightarrow> None | Some t \<Rightarrow> Some (YearFromTime (LocalTime tza t)))"

definition getMonth :: "time_zone \<Rightarrow> int option \<Rightarrow> int option" where
  "getMonth tza d = (case d of None \<Rightarrow> None | Some t \<Rightarrow> Some (MonthFromTime (LocalTime tza t)))"

text \<open>\<open>String(n)\<close> for a number that may be \<open>NaN\<close>.\<close>

definition numberOrNaNToString :: "int option \<Rightarrow> js_string" where
  "numberOrNaNToString n = (case n of None \<Rightarrow> js ''NaN'' | Some k \<Rightarrow> numberToString k)"

text \<open>
  Two time zones. One keeps the same offset for ever. The other is Pacific/Kiritimati
  around the end of 1994, when it went from 10:00 behind UTC to 14:00 ahead of it at
  local midnight and so left out 31 December 1994.
\<close>

definition fixedZone :: "int \<Rightarrow> time_zone" where
  "fixedZone offset t isUTC = offset"

definition lineIslandsZone :: time_zone where
  "lineIslandsZone t isUTC =
     (if isUTC then (if t < 788868000000 then - 36000000 else 50400000)
      else (if t < 788918400000 then - 36000000 else 50400000))"

section \<open>The calendar\<close>

text \<open>
  The Gregorian calendar as the specification speaks of it: leap years, the length of
  month \<open>m\<close> (from 0) of year \<open>y\<close>, the number of days from 1 January 1970 to a date, and
  the day of the week of a date, from 0 for Sunday, 1 January 1970 being a Thursday.
\<close>

definition isLeapYear :: "int \<Rightarrow> bool" where
  "isLeapYear y = (y mod 4 = 0 \<and> (y mod 100 \<noteq> 0 \<or> y mod 400 = 0))"

definition monthLength :: "int \<Rightarrow> int \<Rightarrow> int" where
  "monthLength y m =
     (if m = 1 then (if isLeapYear y then 29 else 28)
      else if m = 3 \<or> m = 5 \<or> m = 8 \<or> m = 10 then 30
      else 31)"

definition daysBeforeMonth :: "int \<Rightarrow> int \<Rightarrow> int" where
  "daysBeforeMonth y m = sum_list (map (monthLength y) [0..m - 1])"

definition daysSinceEpoch :: "int \<Rightarrow> int \<Rightarrow> int \<Rightarrow> int" where
  "daysSinceEpoch y m d = DayFromYear y + daysBeforeMonth y m + (d - 1)"

definition weekdayIndex :: "int \<Rightarrow> int \<Rightarrow> int \<Rightarrow> int" where
  "weekdayIndex y m d = (daysSinceEpoch y m d + 4) mod 7"

text \<open>
  The runtime resolves the local day with day number \<open>d\<close> in a time zone when the Date
  built for local midnight of that day is valid and falls on that day in local time. A
  zone that skips the day, or a day at the end of the range of Date, fails this.
\<close>

definition resolvesLocalDay :: "time_zone \<Rightarrow> int \<Rightarrow> bool" where
  "resolvesLocalDay tza d =
     (\<bar>UTC tza (d * msPerDay)\<bar> \<le> 8640000000000000 \<and> Day (LocalTime tza (UTC tza (d * msPerDay))) = d)"

section \<open>The runtime's dates agree with the calendar\<close>

lemma Day_times: "Day (msPerDay * d) = d" "Day (d * msPerDay) = d"
  by (simp_all add: Day_def msPerDay_def)

lemma year_of_day:
  assumes "0 \<le> k" and "k < DaysInYear y"
  shows "YearFromTime (msPerDay * (DayFromYear y + k)) = y"
proof (rule YearFromTime_eqI)
  show "TimeFromYear y \<le> msPerDay * (DayFromYear y + k)"
    using assms(1) by (simp add: TimeFromYear_def msPerDay_def)
  show "msPerDay * (DayFromYear y + k) < TimeFromYear (y + 1)"
    using assms(2) by (simp add: TimeFromYear_def msPerDay_def DayFromYear_Suc)
qed

lemma DaysInYear_leap: "DaysInYear y = (if isLeapYear y then 366 else 365)"
  by (auto simp: DaysInYear_def isLeapYear_def)

lemma month_cases:
  fixes m :: int
  assumes "0 \<le> m" "m \<le> 11"
  shows "m = 0 \<or> m = 1 \<or> m = 2 \<or> m = 3 \<or> m = 4 \<or> m = 5 \<or> m = 6 \<or> m = 7 \<or> m = 8 \<or> m = 9 \<or> m = 10 \<or> m = 11"
  using assms by arith

lemma daysBeforeMonth_table:
  "daysBeforeMonth y 0 = 0"
  "daysBeforeMonth y 1 = 31"
  "daysBeforeMonth y 2 = 59 + (if isLeapYear y then 1 else 0)"
  "daysBeforeMonth y 3 = 90 + (if isLeapYear y then 1 else 0)"
  "daysBeforeMonth y 4 = 120 + (if isLeapYear y then 1 else 0)"
  "daysBeforeMonth y 5 = 151 + (if isLeapYear y then 1 else 0)"
  "daysBeforeMonth y 6 = 181 + (if isLeapYear y then 1 else 0)"
  "daysBeforeMonth y 7 = 212 + (if isLeapYear y then 1 else 0)"
  "daysBeforeMonth y 8 = 243 + (if isLeapYear y then 1 else 0)"
  "daysBeforeMonth y 9 = 273 + (if isLeapYear y then 1 else 0)"
  "daysBeforeMonth y 10 = 304 + (if isLeapYear y then 1 else 0)"
  "daysBeforeMonth y 11 = 334 + (if isLeapYear y then 1 else 0)"
  "daysBeforeMonth y 12 = 365 + (if isLeapYear y then 1 else 0)"
  by (simp_all add: daysBeforeMonth_def monthLength_def upto.simps)

lemma DaysInYear_months: "DaysInYear y = daysBeforeMonth y 12"
  by (simp add: DaysInYear_leap daysBeforeMonth_table)

lemma DayFromYear_next: "DayFromYear (y + 1) = DayFromYear y + daysBeforeMonth y 12"
  by (simp add: DayFromYear_Suc DaysInYear_months)

lemma monthStartDay_eq:
  assumes "0 \<le> m" "m \<le> 11"
  shows "monthStartDay y m = DayFromYear y + daysBeforeMonth y m"
  using month_cases [OF assms]
  by (elim disjE) (simp_all add: monthStartDay_def DaysInYear_leap daysBeforeMonth_table)

lemma within_year:
  assumes "0 \<le> k" and "k < DaysInYear y"
  shows "DayWithinYear (msPerDay * (DayFromYear y + k)) = k"
    and "InLeapYear (msPerDay * (DayFromYear y + k)) = (if isLeapYear y then 1 else 0)"
  using year_of_day [OF assms]
  by (simp_all add: DayWithinYear_def InLeapYear_def Day_times DaysInYear_leap)

lemma daysBeforeMonth_bounds:
  assumes "0 \<le> m" "m \<le> 11"
  shows "0 \<le> daysBeforeMonth y m" "daysBeforeMonth y m + monthLength y m \<le> DaysInYear y"
  using month_cases [OF assms]
  by (elim disjE; simp add: DaysInYear_leap daysBeforeMonth_table monthLength_def)+

lemma monthLength_bounds: "28 \<le> monthLength y m" "monthLength y m \<le> 31"
  by (simp_all add: monthLength_def)

lemma month_of_offset:
  assumes "0 \<le> m" "m \<le> 11" and "1 \<le> d" "d \<le> monthLength y m"
    and "DayWithinYear t = daysBeforeMonth y m + (d - 1)"
    and "InLeapYear t = (if isLeapYear y then 1 else 0)"
  shows "MonthFromTime t = m"
  using month_cases [OF assms(1,2)] assms(3-)
  by (cases "isLeapYear y"; elim disjE;
      simp add: MonthFromTime_def Let_def daysBeforeMonth_table monthLength_def)

lemma month_date_of_offset:
  assumes "0 \<le> m" "m \<le> 11" and "1 \<le> d" "d \<le> monthLength y m"
    and "DayWithinYear t = daysBeforeMonth y m + (d - 1)"
    and "InLeapYear t = (if isLeapYear y then 1 else 0)"
  shows "MonthFromTime t = m \<and> DateFromTime t = d"
  using month_cases [OF assms(1,2)] assms(3-) month_of_offset [OF assms]
  by (cases "isLeapYear y"; elim disjE;
      simp add: DateFromTime_def Let_def daysBeforeMonth_table)

lemma date_of_day:
  assumes "0 \<le> m" "m \<le> 11" and "1 \<le> d" "d \<le> monthLength y m"
  shows "YearFromTime (msPerDay * daysSinceEpoch y m d) = y"
    and "MonthFromTime (msPerDay * daysSinceEpoch y m d) = m"
    and "DateFromTime (msPerDay * daysSinceEpoch y m d) = d"
proof -
  let ?k = "daysBeforeMonth y m + (d - 1)"
  have k: "0 \<le> ?k" "?k < DaysInYear y"
    using daysBeforeMonth_bounds [OF assms(1,2), of y] assms(3,4) by simp_all
  have e: "daysSinceEpoch y m d = DayFromYear y + ?k"
    by (simp add: daysSinceEpoch_def)
  show "YearFromTime (msPerDay * daysSinceEpoch y m d) = y"
    unfolding e by (rule year_of_day [OF k])
  have w: "DayWithinYear (msPerDay * daysSinceEpoch y m d) = ?k"
    "InLeapYear (msPerDay * daysSinceEpoch y m d) = (if isLeapYear y then 1 else 0)"
    unfolding e by (rule within_year [OF k])+
  from month_date_of_offset [OF assms w]
  show "MonthFromTime (msPerDay * daysSinceEpoch y m d) = m"
    and "DateFromTime (msPerDay * daysSinceEpoch y m d) = d"
    by simp_all
qed

lemma daysBeforeMonth_Suc:
  assumes "0 \<le> m" "m \<le> 11"
  shows "daysBeforeMonth y (m + 1) = daysBeforeMonth y m + monthLength y m"
  using month_cases [OF assms]
  by (elim disjE) (simp_all add: daysBeforeMonth_table monthLength_def)

lemma MakeDay_first:
  assumes "0 \<le> m" "m \<le> 11"
  shows "MakeDay y m 1 = daysSinceEpoch y m 1"
  using assms by (simp add: MakeDay_def Let_def monthStartDay_eq daysSinceEpoch_def)

lemma MakeDay_last:
  assumes "0 \<le> m" "m \<le> 11"
  shows "MakeDay y (m + 1) 0 = daysSinceEpoch y m (monthLength y m)"
proof (cases "m = 11")
  case True
  have "monthStartDay (y + 1) 0 = DayFromYear y + daysBeforeMonth y 12"
    by (simp add: monthStartDay_eq DayFromYear_next daysBeforeMonth_table)
  with True show ?thesis
    using daysBeforeMonth_Suc [of 11 y]
    by (simp add: MakeDay_def Let_def daysSinceEpoch_def)
next
  case False
  with assms have m: "0 \<le> m + 1" "m + 1 \<le> 11" by simp_all
  then have "(m + 1) div 12 = 0" "(m + 1) mod 12 = m + 1" by simp_all
  then show ?thesis
    using daysBeforeMonth_Suc [OF assms, of y]
    by (simp add: MakeDay_def Let_def monthStartDay_eq [OF m] daysSinceEpoch_def)
qed

lemma MakeDay_finds_first_of_month:
  assumes "0 \<le> mn" "mn \<le> 11"
  shows "YearFromTime (msPerDay * monthStartDay ym mn) = ym
    \<and> MonthFromTime (msPerDay * monthStartDay ym mn) = mn
    \<and> DateFromTime (msPerDay * monthStartDay ym mn) = 1"
proof -
  have "monthStartDay ym mn = daysSinceEpoch ym mn 1"
    using assms by (simp add: monthStartDay_eq daysSinceEpoch_def)
  moreover have "(1::int) \<le> monthLength ym mn"
    using monthLength_bounds(1) [of ym mn] by simp
  ultimately show ?thesis
    using date_of_day [OF assms, of 1 ym] by simp
qed

text \<open>Year, month and day of a time value are those of the midnight before it.\<close>

lemma Day_le: "msPerDay * Day t \<le> t"
  using pos_mod_sign [of msPerDay t] mult_div_mod_eq [of msPerDay t]
  by (simp add: Day_def msPerDay_def)

lemma YearFromTime_Day: "YearFromTime t = YearFromTime (msPerDay * Day t)"
proof (rule YearFromTime_eqI)
  let ?y = "YearFromTime (msPerDay * Day t)"
  have "TimeFromYear ?y \<le> msPerDay * Day t" by (rule YearFromTime_bounds(1))
  with Day_le [of t] show "TimeFromYear ?y \<le> t" by simp
  have "msPerDay * Day t < TimeFromYear (?y + 1)" by (rule YearFromTime_bounds(2))
  then have "Day t < DayFromYear (?y + 1)" by (simp add: TimeFromYear_def msPerDay_def)
  then show "t < TimeFromYear (?y + 1)" unfolding TimeFromYear_def by (rule Day_less)
qed

lemma DayWithinYear_Day: "DayWithinYear (msPerDay * Day t) = DayWithinYear t"
  by (simp add: DayWithinYear_def Day_times YearFromTime_Day [symmetric])

lemma InLeapYear_Day: "InLeapYear (msPerDay * Day t) = InLeapYear t"
  by (simp add: InLeapYear_def YearFromTime_Day [symmetric])

lemma MonthFromTime_Day: "MonthFromTime (msPerDay * Day t) = MonthFromTime t"
  by (simp add: MonthFromTime_def DayWithinYear_Day InLeapYear_Day)

lemma DateFromTime_Day: "DateFromTime (msPerDay * Day t) = DateFromTime t"
  by (simp add: DateFromTime_def DayWithinYear_Day InLeapYear_Day MonthFromTime_Day)

lemma WeekDay_Day: "WeekDay (msPerDay * Day t) = WeekDay t"
  by (simp add: WeekDay_def Day_times)

lemma date_of_time:
  assumes "0 \<le> m" "m \<le> 11" and "1 \<le> d" "d \<le> monthLength y m"
    and "Day t = daysSinceEpoch y m d"
  shows "YearFromTime t = y" and "MonthFromTime t = m" and "DateFromTime t = d"
    and "WeekDay t = weekdayIndex y m d"
  using date_of_day [OF assms(1-4)] assms(5)
    YearFromTime_Day [of t] MonthFromTime_Day [of t] DateFromTime_Day [of t]
  by (simp_all add: WeekDay_def weekdayIndex_def)

text \<open>
  What the source asks of its Dates: the day of the month of day 0 of the next month, and
  the day of the week of day 1 of the month, where the runtime resolves these days.
\<close>

lemma newDate_resolved:
  assumes "resolvesLocalDay tza (MakeDay (fullYear year) month dt)"
  shows "\<exists>t. newDate tza year month dt = Some t \<and> Day (LocalTime tza t) = MakeDay (fullYear year) month dt"
  using assms by (simp add: resolvesLocalDay_def newDate_def MakeDate_def TimeClip_def)

lemma getDate_lastDay:
  assumes "0 \<le> month" "month \<le> 11"
    and "resolvesLocalDay tza (daysSinceEpoch (fullYear year) month (monthLength (fullYear year) month))"
  shows "getDate tza (newDate tza year (month + 1) 0) = Some (monthLength (fullYear year) month)"
proof -
  let ?y = "fullYear year"
  have "resolvesLocalDay tza (MakeDay ?y (month + 1) 0)"
    using assms(3) by (simp add: MakeDay_last [OF assms(1,2)])
  from newDate_resolved [OF this] obtain t where
    t: "newDate tza year (month + 1) 0 = Some t"
      "Day (LocalTime tza t) = daysSinceEpoch ?y month (monthLength ?y month)"
    by (auto simp: MakeDay_last [OF assms(1,2)])
  have "(1::int) \<le> monthLength ?y month" "monthLength ?y month \<le> monthLength ?y month"
    using monthLength_bounds(1) [of ?y month] by simp_all
  from date_of_time(3) [OF assms(1,2) this t(2)] t(1) show ?thesis
    by (simp add: getDate_def)
qed

lemma getDay_firstDay:
  assumes "0 \<le> month" "month \<le> 11"
    and "resolvesLocalDay tza (daysSinceEpoch (fullYear year) month 1)"
  shows "getDay tza (newDate tza year month 1) = Some (weekdayIndex (fullYear year) month 1)"
proof -
  let ?y = "fullYear year"
  have "resolvesLocalDay tza (MakeDay ?y month 1)"
    using assms(3) by (simp add: MakeDay_first [OF assms(1,2)])
  from newDate_resolved [OF this] obtain t where
    t: "newDate tza year month 1 = Some t" "Day (LocalTime tza t) = daysSinceEpoch ?y month 1"
    by (auto simp: MakeDay_first [OF assms(1,2)])
  have "(1::int) \<le> 1" "1 \<le> monthLength ?y month"
    using monthLength_bounds(1) [of ?y month] by simp_all
  from date_of_time(4) [OF assms(1,2) this t(2)] t(1) show ?thesis
    by (simp add: getDay_def)
qed

text \<open>A zone of constant offset resolves every day whose local midnight is in range.\<close>

lemma fixedZone_resolves:
  "resolvesLocalDay (fixedZone c) d \<longleftrightarrow> \<bar>d * msPerDay - c\<bar> \<le> 8640000000000000"
  by (simp add: resolvesLocalDay_def fixedZone_def UTC_def LocalTime_def Day_times)

lemma isLeapYear_fullYear:
  assumes "year \<noteq> 0"
  shows "isLeapYear (fullYear year) = isLeapYear year"
proof (cases "0 \<le> year \<and> year \<le> 99")
  case False
  then show ?thesis by (auto simp: fullYear_def)
next
  case True
  with assms have r: "1 \<le> year" "year \<le> 99" by simp_all
  have a: "(1900 + year) mod 4 = year mod 4"
    using mod_mult_self2 [of year 4 475] by (simp add: add.commute)
  have b: "(1900 + year) mod 100 = year"
    using mod_mult_self2 [of year 100 19] r by (simp add: add.commute)
  have c: "year mod 100 = year" using r by simp
  show ?thesis
    using r by (simp add: fullYear_def isLeapYear_def a b c)
qed

lemma monthLength_fullYear: "year \<noteq> 0 \<Longrightarrow> monthLength (fullYear year) month = monthLength year month"
  by (simp add: monthLength_def isLeapYear_fullYear)

text \<open>
  The day of the week of the calendar is fixed by its value at the epoch and by the
  lengths of the months: the first day of a month falls as many days after the first
  day of the month before as that month is long.
\<close>

lemma weekday_next_month:
  assumes "0 \<le> m" "m \<le> 10"
  shows "weekdayIndex y (m + 1) 1 = (weekdayIndex y m 1 + monthLength y m) mod 7"
proof -
  have "daysBeforeMonth y (m + 1) = daysBeforeMonth y m + monthLength y m"
    using assms by (intro daysBeforeMonth_Suc) simp_all
  then have "daysSinceEpoch y (m + 1) 1 + 4 = (daysSinceEpoch y m 1 + 4) + monthLength y m"
    by (simp add: daysSinceEpoch_def)
  then show ?thesis
    unfolding weekdayIndex_def by (simp only: mod_add_left_eq)
qed

lemma weekday_next_year:
  "weekdayIndex (y + 1) 0 1 = (weekdayIndex y 11 1 + monthLength y 11) mod 7"
proof -
  have "daysBeforeMonth y 12 = daysBeforeMonth y 11 + monthLength y 11"
    using daysBeforeMonth_Suc [of 11 y] by simp
  then have "daysSinceEpoch (y + 1) 0 1 + 4 = (daysSinceEpoch y 11 1 + 4) + monthLength y 11"
    by (simp add: daysSinceEpoch_def DayFromYear_next daysBeforeMonth_table(1))
  then show ?thesis
    unfolding weekdayIndex_def by (simp only: mod_add_left_eq)
qed

lemma weekday_epoch: "weekdayIndex 1970 0 1 = 4"
  by (simp add: weekdayIndex_def daysSinceEpoch_def DayFromYear_1970 daysBeforeMonth_table)

section \<open>Calendar view\<close>

text \<open>
  The date string of a day, as \<open>renderCalendar\<close> builds it with a template literal: the
  year as it prints, then month and day padded to two digits.
\<close>

definition dateStr :: "int \<Rightarrow> int \<Rightarrow> int \<Rightarrow> js_string" where
  "dateStr year month day =
     numberToString year @ js ''-'' @ padStart 2 (js ''0'') (numberToString (month + 1)) @ js ''-'' @
     padStart 2 (js ''0'') (numberToString day)"

text \<open>
  What \<open>renderCalendar\<close> appends to the calendar grid, in order: the seven cells of the
  day names, the empty cells before the first day, and one cell per day. A day cell
  carries the date string its click handler opens the picker with, the text of its day
  number, whether it is marked as today, the entries of its day and, for each of these
  whose habit is found, that habit (its icon is shown).
\<close>

record day_cell =
  cellDateStr :: js_string
  dayNumber :: js_string
  isToday :: bool
  entriesForDay :: "HabitEntry list"
  dayHabits :: "Habit list"

datatype calendar_cell = DayNameCell js_string | EmptyCell | DayCell day_cell

definition dayNames :: "js_string list" where
  "dayNames = [js ''Sun'', js ''Mon'', js ''Tue'', js ''Wed'', js ''Thu'', js ''Fri'', js ''Sat'']"

definition dayCell :: "time_zone \<Rightarrow> int \<Rightarrow> int \<Rightarrow> int \<Rightarrow> HabitTrackerSettings \<Rightarrow> int \<Rightarrow> day_cell" where
  "dayCell tza year month today s day =
     (let entriesForDay' = filter (\<lambda>e. date e = dateStr year month day) (entries s)
      in \<lparr>cellDateStr = dateStr year month day,
          dayNumber = numberToString day,
          isToday = (Some year = getFullYear tza (Some today) \<and> Some month = getMonth tza (Some today)
                     \<and> Some day = getDate tza (Some today)),
          entriesForDay = entriesForDay',
          dayHabits = List.map_filter (\<lambda>entry. find (\<lambda>h. id' h = habitId entry) (habits s)) entriesForDay'\<rparr>)"

text \<open>
  The two loops of \<open>renderCalendar\<close>, for bounds that are numbers. When a bound is \<open>NaN\<close>
  the comparison of the loop is false at once and the loop appends nothing; that case is
  in \<open>renderCalendar\<close> below.
\<close>

function emptyCells :: "int \<Rightarrow> int \<Rightarrow> calendar_cell list" where
  "emptyCells i startingDayOfWeek =
     (if i < startingDayOfWeek then EmptyCell # emptyCells (i + 1) startingDayOfWeek else [])"
  by pat_completeness auto
termination
  by (relation "measure (\<lambda>(i, n). nat (n - i))") auto

declare emptyCells.simps [simp del]

function dayCells ::
  "time_zone \<Rightarrow> int \<Rightarrow> int \<Rightarrow> int \<Rightarrow> HabitTrackerSettings \<Rightarrow> int \<Rightarrow> int \<Rightarrow> calendar_cell list" where
  "dayCells tza year month today s day daysInMonth =
     (if day \<le> daysInMonth
      then DayCell (dayCell tza year month today s day) #
           dayCells tza year month today s (day + 1) daysInMonth
      else [])"
  by pat_completeness auto
termination
  by (relation "measure (\<lambda>(tza, year, month, today, s, day, n). nat (n + 1 - day))") auto

declare dayCells.simps [simp del]

text \<open>
  \<open>year\<close> and \<open>month\<close> are those of the view's current date, a valid Date
  (\<open>getFullYear()\<close> and \<open>getMonth()\<close>, from 0 for January); \<open>today\<close> is the time value
  of \<open>new Date()\<close>.
\<close>

definition renderCalendar ::
  "time_zone \<Rightarrow> int \<Rightarrow> int \<Rightarrow> int \<Rightarrow> HabitTrackerSettings \<Rightarrow> calendar_cell list" where
  "renderCalendar tza year month today s =
     (let firstDay = newDate tza year month 1;
          lastDay = newDate tza year (month + 1) 0;
          daysInMonth = getDate tza lastDay;
          startingDayOfWeek = getDay tza firstDay
      in map DayNameCell dayNames @
         (case startingDayOfWeek of None \<Rightarrow> [] | Some n \<Rightarrow> emptyCells 0 n) @
         (case daysInMonth of None \<Rightarrow> [] | Some n \<Rightarrow> dayCells tza year month today s 1 n))"

section \<open>Monthly summary\<close>

text \<open>
  The bounds of the month as \<open>onOpen\<close> of the summary builds them, the count it shows
  for a habit, and the list it shows: nothing but a message when there are no habits.
\<close>

definition monthStart :: "int \<Rightarrow> int \<Rightarrow> js_string" where
  "monthStart year month =
     numberToString year @ js ''-'' @ padStart 2 (js ''0'') (numberToString (month + 1)) @ js ''-01''"

definition monthEnd :: "time_zone \<Rightarrow> int \<Rightarrow> int \<Rightarrow> js_string" where
  "monthEnd tza year month =
     (let lastDay = getDate tza (newDate tza year (month + 1) 0)
      in numberToString year @ js ''-'' @ padStart 2 (js ''0'') (numberToString (month + 1)) @ js ''-'' @
         padStart 2 (js ''0'') (numberOrNaNToString lastDay))"

definition monthlyCount :: "time_zone \<Rightarrow> HabitTrackerSettings \<Rightarrow> Habit \<Rightarrow> int \<Rightarrow> int \<Rightarrow> nat" where
  "monthlyCount tza s habit year month =
     length (filter (\<lambda>e. habitId e = id' habit \<and> monthStart year month \<le> date e
                       \<and> date e \<le> monthEnd tza year month)
       (entries s))"

definition summaryItems ::
  "time_zone \<Rightarrow> HabitTrackerSettings \<Rightarrow> int \<Rightarrow> int \<Rightarrow> (Habit \<times> js_string) list option" where
  "summaryItems tza s year month =
     (if habits s = [] then None
      else Some (map (\<lambda>habit. (habit, numberToString (int (monthlyCount tza s habit year month)) @ js '' days''))
                  (habits s)))"

section \<open>Date strings\<close>

text \<open>
  The form \<open>YYYY-MM-DD\<close> of the specification: the year in four decimal digits, the
  month (from 1) and the day in two, each padded with zeros, separated by hyphens.
\<close>

fun zeroPadded :: "nat \<Rightarrow> nat \<Rightarrow> js_string" where
  "zeroPadded 0 k = []"
| "zeroPadded (Suc n) k = zeroPadded n (k div 10) @ [0x30 + of_nat (k mod 10)]"

definition isoDate :: "int \<Rightarrow> int \<Rightarrow> int \<Rightarrow> js_string" where
  "isoDate y m d = zeroPadded 4 (nat y) @ js ''-'' @ zeroPadded 2 (nat (m + 1)) @ js ''-'' @ zeroPadded 2 (nat d)"

lemma digits_zeroPadded: "10 ^ k \<le> n \<Longrightarrow> n < 10 ^ Suc k \<Longrightarrow> digits n = zeroPadded (Suc k) n"
proof (induction k arbitrary: n)
  case 0
  then show ?case by (subst digits.simps) simp
next
  case (Suc k)
  have p: "(1::nat) \<le> 10 ^ k" by simp
  from Suc.prems have b: "10 * 10 ^ k \<le> n" "n < 100 * 10 ^ k" by simp_all
  from p b have ge: "\<not> n < 10" by linarith
  from b have "10 ^ k \<le> n div 10" "n div 10 < 10 ^ Suc k"
    by simp_all
  then have "digits (n div 10) = zeroPadded (Suc k) (n div 10)" by (rule Suc.IH)
  with ge show ?case by (subst digits.simps) simp
qed

lemma js_minus: "js ''-'' = [0x2D]" and js_zero: "js ''0'' = [0x30]"
  by (simp_all add: js_def)

lemma length_zeroPadded: "length (zeroPadded n k) = n"
  by (induction n arbitrary: k) simp_all

lemma zeroPadded_2: "zeroPadded 2 k = zeroPadded (Suc (Suc 0)) k"
  by (simp only: numeral_2_eq_2)

lemma zeroPadded_4: "zeroPadded 4 k = zeroPadded (Suc (Suc (Suc (Suc 0)))) k"
proof -
  have "(4::nat) = Suc (Suc (Suc (Suc 0)))" by simp
  then show ?thesis by (simp only:)
qed

lemma numberToString_4: "1000 \<le> y \<Longrightarrow> y \<le> 9999 \<Longrightarrow> numberToString y = zeroPadded 4 (nat y)"
  using digits_zeroPadded [of 3 "nat y"] by (simp add: numberToString_def)

lemma padStart_2:
  assumes "0 \<le> k" "k \<le> 99"
  shows "padStart 2 (js ''0'') (numberToString k) = zeroPadded 2 (nat k)"
proof (cases "k < 10")
  case True
  with assms have lt: "nat k < 10" by simp
  then have "digits (nat k) = [0x30 + of_nat (nat k)]"
    by (subst digits.simps) simp
  with assms lt show ?thesis
    by (simp add: padStart_def numberToString_def js_zero zeroPadded_2)
next
  case False
  with assms have r: "10 \<le> nat k" "nat k < 100" by simp_all
  then have "digits (nat k) = zeroPadded 2 (nat k)"
    using digits_zeroPadded [of 1 "nat k"] by (simp add: zeroPadded_2)
  with assms show ?thesis
    by (simp add: padStart_def numberToString_def length_zeroPadded)
qed

lemma dateStr_isoDate:
  assumes "1000 \<le> year" "year \<le> 9999" and "0 \<le> month" "month \<le> 11" and "0 \<le> day" "day \<le> 99"
  shows "dateStr year month day = isoDate year month day"
  using assms by (simp add: dateStr_def isoDate_def numberToString_4 padStart_2)

text \<open>
  The lexicographic order of strings of the same length that continue differently, and
  of zero-padded numbers of the same width: the order of the numbers.
\<close>

lemma append_less_same_length:
  fixes xs ys :: "'a::linorder list"
  assumes "length xs = length ys"
  shows "xs @ us < ys @ vs \<longleftrightarrow> xs < ys \<or> (xs = ys \<and> us < vs)"
  using assms by (induction xs ys rule: list_induct2) auto

lemma append_le_same_length:
  fixes xs ys :: "'a::linorder list"
  assumes "length xs = length ys"
  shows "xs @ us \<le> ys @ vs \<longleftrightarrow> xs < ys \<or> (xs = ys \<and> us \<le> vs)"
  using assms by (induction xs ys rule: list_induct2) auto

lemma unat_digit: "i < 10 \<Longrightarrow> unat (0x30 + of_nat i :: code_unit) = 48 + i"
  by (simp add: unat_word_ariths unat_of_nat)

lemma digit_less: "i < 10 \<Longrightarrow> j < 10 \<Longrightarrow> (0x30 + of_nat i :: code_unit) < 0x30 + of_nat j \<longleftrightarrow> i < j"
  by (simp add: word_less_nat_alt unat_digit)

lemma digit_eq: "i < 10 \<Longrightarrow> j < 10 \<Longrightarrow> (0x30 + of_nat i :: code_unit) = 0x30 + of_nat j \<longleftrightarrow> i = j"
  by (metis unat_digit add_left_cancel)

lemma of_nat_digit_eq:
  assumes "i < 10" "j < 10"
  shows "(of_nat i :: code_unit) = of_nat j \<longleftrightarrow> i = j"
proof
  assume "(of_nat i :: code_unit) = of_nat j"
  then have "unat (of_nat i :: code_unit) = unat (of_nat j :: code_unit)" by (simp only:)
  then show "i = j" using assms by (simp add: unat_of_nat)
next
  assume "i = j"
  then show "(of_nat i :: code_unit) = of_nat j" by (simp only:)
qed

lemma zeroPadded_order:
  "a < 10 ^ n \<Longrightarrow> b < 10 ^ n \<Longrightarrow>
   (zeroPadded n a < zeroPadded n b \<longleftrightarrow> a < b) \<and> (zeroPadded n a = zeroPadded n b \<longleftrightarrow> a = b)"
proof (induction n arbitrary: a b)
  case 0
  then show ?case by simp
next
  case (Suc n)
  from Suc.prems have q: "a div 10 < 10 ^ n" "b div 10 < 10 ^ n" by simp_all
  have r: "a mod 10 < 10" "b mod 10 < 10" by simp_all
  note ih = Suc.IH [OF q]
  have less: "zeroPadded (Suc n) a < zeroPadded (Suc n) b \<longleftrightarrow>
      a div 10 < b div 10 \<or> (a div 10 = b div 10 \<and> a mod 10 < b mod 10)"
    using ih by (simp add: append_less_same_length length_zeroPadded digit_less [OF r])
  have eq: "zeroPadded (Suc n) a = zeroPadded (Suc n) b \<longleftrightarrow>
      a div 10 = b div 10 \<and> a mod 10 = b mod 10"
    using ih by (simp add: of_nat_digit_eq [OF r])
  define qa ra qb rb where "qa = a div 10" and "ra = a mod 10" and "qb = b div 10" and "rb = b mod 10"
  have ab: "a = 10 * qa + ra" "b = 10 * qb + rb" and rr: "ra < 10" "rb < 10"
    by (simp_all add: qa_def ra_def qb_def rb_def)
  have "qa < qb \<or> (qa = qb \<and> ra < rb) \<longleftrightarrow> 10 * qa + ra < 10 * qb + rb"
    using rr by linarith
  moreover have "qa = qb \<and> ra = rb \<longleftrightarrow> 10 * qa + ra = 10 * qb + rb"
    using rr by arith
  ultimately show ?case
    using less eq unfolding qa_def [symmetric] ra_def [symmetric] qb_def [symmetric] rb_def [symmetric]
    using ab by simp
qed

lemma isoDate_le:
  assumes "0 \<le> y1" "y1 \<le> 9999" "0 \<le> m1" "m1 \<le> 11" "0 \<le> d1" "d1 \<le> 99"
    and "0 \<le> y2" "y2 \<le> 9999" "0 \<le> m2" "m2 \<le> 11" "0 \<le> d2" "d2 \<le> 99"
  shows "isoDate y1 m1 d1 \<le> isoDate y2 m2 d2 \<longleftrightarrow>
     y1 < y2 \<or> (y1 = y2 \<and> (m1 < m2 \<or> (m1 = m2 \<and> d1 \<le> d2)))"
proof -
  have y: "(zeroPadded 4 (nat y1) < zeroPadded 4 (nat y2) \<longleftrightarrow> y1 < y2)
      \<and> (zeroPadded 4 (nat y1) = zeroPadded 4 (nat y2) \<longleftrightarrow> y1 = y2)"
    using zeroPadded_order [of "nat y1" 4 "nat y2"] assms by auto
  have m: "(zeroPadded 2 (nat (m1 + 1)) < zeroPadded 2 (nat (m2 + 1)) \<longleftrightarrow> m1 < m2)
      \<and> (zeroPadded 2 (nat (m1 + 1)) = zeroPadded 2 (nat (m2 + 1)) \<longleftrightarrow> m1 = m2)"
    using zeroPadded_order [of "nat (m1 + 1)" 2 "nat (m2 + 1)"] assms by auto
  have d: "(zeroPadded 2 (nat d1) < zeroPadded 2 (nat d2) \<longleftrightarrow> d1 < d2)
      \<and> (zeroPadded 2 (nat d1) = zeroPadded 2 (nat d2) \<longleftrightarrow> d1 = d2)"
    using zeroPadded_order [of "nat d1" 2 "nat d2"] assms by auto
  have dle: "zeroPadded 2 (nat d1) \<le> zeroPadded 2 (nat d2) \<longleftrightarrow> d1 \<le> d2"
    using d by (auto simp: le_less)
  show ?thesis
    unfolding isoDate_def js_minus
    by (simp add: append_le_same_length length_zeroPadded y m dle)
qed

text \<open>
  With a year of fewer than four digits the date string is shorter, and the order of the
  strings is no longer the order of the dates.
\<close>

lemma unpadded_year_breaks_order: "\<not> dateStr 999 11 31 \<le> dateStr 1000 0 1"
  by (simp add: dateStr_def numberToString_def digits.simps padStart_def js_def)

section \<open>The order of the dates\<close>

text \<open>
  For dates of the calendar, the number of days since the epoch grows with the year,
  then with the month, then with the day.
\<close>

lemma daysBeforeMonth_mono:
  "0 \<le> m \<Longrightarrow> m + int n \<le> 12 \<Longrightarrow> daysBeforeMonth y m \<le> daysBeforeMonth y (m + int n)"
proof (induction n)
  case 0
  show ?case by simp
next
  case (Suc n)
  then have r: "0 \<le> m + int n" "m + int n \<le> 11" by simp_all
  have "m + int (Suc n) = m + int n + 1" by simp
  then have "daysBeforeMonth y (m + int (Suc n)) =
      daysBeforeMonth y (m + int n) + monthLength y (m + int n)"
    using daysBeforeMonth_Suc [OF r, of y] by (simp only:)
  moreover have "daysBeforeMonth y m \<le> daysBeforeMonth y (m + int n)"
    using Suc by simp
  ultimately show ?case
    using monthLength_bounds(1) [of y "m + int n"] by linarith
qed

lemma daysSinceEpoch_in_year:
  assumes "0 \<le> m" "m \<le> 11" "1 \<le> d" "d \<le> monthLength y m"
  shows "DayFromYear y \<le> daysSinceEpoch y m d" "daysSinceEpoch y m d < DayFromYear (y + 1)"
  using daysBeforeMonth_bounds [OF assms(1,2), of y] assms(3,4)
  by (simp_all add: daysSinceEpoch_def DayFromYear_Suc)

lemma daysSinceEpoch_less:
  assumes "0 \<le> m1" "m1 \<le> 11" "1 \<le> d1" "d1 \<le> monthLength y1 m1"
    and "0 \<le> m2" "m2 \<le> 11" "1 \<le> d2" "d2 \<le> monthLength y2 m2"
    and "y1 < y2 \<or> (y1 = y2 \<and> (m1 < m2 \<or> (m1 = m2 \<and> d1 < d2)))"
  shows "daysSinceEpoch y1 m1 d1 < daysSinceEpoch y2 m2 d2"
proof -
  consider "y1 < y2" | "y1 = y2" "m1 < m2" | "y1 = y2" "m1 = m2" "d1 < d2"
    using assms(9) by blast
  then show ?thesis
  proof cases
    case 1
    then have "DayFromYear (y1 + 1) \<le> DayFromYear y2" by (intro DayFromYear_mono) simp
    with daysSinceEpoch_in_year(2) [OF assms(1-4)] daysSinceEpoch_in_year(1) [OF assms(5-8)]
    show ?thesis by simp
  next
    case 2
    define n where "n = nat (m2 - (m1 + 1))"
    have n: "m2 = (m1 + 1) + int n" using 2 by (simp add: n_def)
    have "daysBeforeMonth y1 (m1 + 1) \<le> daysBeforeMonth y1 ((m1 + 1) + int n)"
      using assms(1,6) n by (intro daysBeforeMonth_mono) simp_all
    then have "daysBeforeMonth y1 m1 + monthLength y1 m1 \<le> daysBeforeMonth y1 m2"
      using daysBeforeMonth_Suc [OF assms(1,2), of y1] n by simp
    with 2 assms(3,4,7) show ?thesis by (simp add: daysSinceEpoch_def)
  next
    case 3
    then show ?thesis by (simp add: daysSinceEpoch_def)
  qed
qed

lemma daysSinceEpoch_le_iff:
  assumes "0 \<le> m1" "m1 \<le> 11" "1 \<le> d1" "d1 \<le> monthLength y1 m1"
    and "0 \<le> m2" "m2 \<le> 11" "1 \<le> d2" "d2 \<le> monthLength y2 m2"
  shows "daysSinceEpoch y1 m1 d1 \<le> daysSinceEpoch y2 m2 d2 \<longleftrightarrow>
     y1 < y2 \<or> (y1 = y2 \<and> (m1 < m2 \<or> (m1 = m2 \<and> d1 \<le> d2)))"
proof (cases "y1 < y2 \<or> (y1 = y2 \<and> (m1 < m2 \<or> (m1 = m2 \<and> d1 \<le> d2)))")
  case True
  then consider "y1 < y2 \<or> (y1 = y2 \<and> (m1 < m2 \<or> (m1 = m2 \<and> d1 < d2)))" | "y1 = y2" "m1 = m2" "d1 = d2"
    by fastforce
  then have "daysSinceEpoch y1 m1 d1 \<le> daysSinceEpoch y2 m2 d2"
  proof cases
    case 1
    from daysSinceEpoch_less [OF assms 1] show ?thesis by simp
  next
    case 2
    then show ?thesis by simp
  qed
  with True show ?thesis by simp
next
  case False
  then have "y2 < y1 \<or> (y2 = y1 \<and> (m2 < m1 \<or> (m2 = m1 \<and> d2 < d1)))" by auto
  from daysSinceEpoch_less [OF assms(5-8) assms(1-4) this] False show ?thesis by simp
qed

section \<open>The month grid\<close>

lemma emptyCells_replicate: "emptyCells i n = replicate (nat (n - i)) EmptyCell"
proof (induction i n rule: emptyCells.induct)
  case (1 i n)
  show ?case
  proof (cases "i < n")
    case True
    then have "nat (n - i) = Suc (nat (n - (i + 1)))" by simp
    with True 1 show ?thesis by (subst emptyCells.simps) simp
  next
    case False
    then show ?thesis by (subst emptyCells.simps) simp
  qed
qed

lemma dayCells_map:
  "dayCells tza year month today s day n =
     map (\<lambda>d. DayCell (dayCell tza year month today s d)) [day..n]"
proof (induction tza year month today s day n rule: dayCells.induct)
  case (1 tza year month today s day n)
  show ?case
  proof (cases "day \<le> n")
    case True
    with 1 show ?thesis by (subst dayCells.simps) (simp add: upto_rec1)
  next
    case False
    then show ?thesis by (subst dayCells.simps) simp
  qed
qed

lemma weekdayIndex_range: "0 \<le> weekdayIndex y m d" "weekdayIndex y m d \<le> 6"
  by (simp_all add: weekdayIndex_def)

lemma renderCalendar_cells:
  assumes "0 \<le> month" "month \<le> 11"
    and "resolvesLocalDay tza (daysSinceEpoch (fullYear year) month 1)"
    and "resolvesLocalDay tza (daysSinceEpoch (fullYear year) month (monthLength (fullYear year) month))"
  shows "renderCalendar tza year month today s =
     map DayNameCell dayNames @
     replicate (nat (weekdayIndex (fullYear year) month 1)) EmptyCell @
     map (\<lambda>d. DayCell (dayCell tza year month today s d)) [1..monthLength (fullYear year) month]"
  by (simp add: renderCalendar_def Let_def getDate_lastDay [OF assms(1,2,4)]
      getDay_firstDay [OF assms(1,2,3)] emptyCells_replicate dayCells_map)

section \<open>The month grid and the time zone\<close>

text \<open>The definitions by which a Date of given numbers is evaluated.\<close>

lemmas date_eval = newDate_def getDate_def getDay_def TimeClip_def UTC_def LocalTime_def
  fullYear_def MakeDate_def MakeDay_def monthStartDay_def DateFromTime_def MonthFromTime_def
  DayWithinYear_def InLeapYear_def YearFromTime_def WeekDay_def Day_def msPerDay_def yearSearch.simps
  TimeFromYear_def DayFromYear_def DaysInYear_def Let_def

text \<open>
  In the zone that left out 31 December 1994, day 0 of January 1995 is read back as
  1 January 1995, while 1 December 1994 is the Thursday it was.
\<close>

lemma lineIslands_lastDay: "getDate lineIslandsZone (newDate lineIslandsZone 1994 (11 + 1) 0) = Some 1"
  by (simp add: date_eval lineIslandsZone_def)

lemma lineIslands_firstDay: "getDay lineIslandsZone (newDate lineIslandsZone 1994 11 1) = Some 4"
  by (simp add: date_eval lineIslandsZone_def)

text \<open>
  Claim C6, as amended. Take a month from 0 to 11 of a year outside 0..99, in a time zone
  where the runtime resolves the first and the last day of the month. The grid is the
  seven day names, then as many empty cells as the Sunday-first weekday index (0 to 6) of
  the first day of the month, then one cell for each day from 1 to the length of the
  month in the calendar (28 to 31, with leap years). The cell of a day carries a date
  string and the entries whose date is that string; for the years 1000 to 9999 the date
  string is that of the day in the zero-padded form \<open>YYYY-MM-DD\<close>.
\<close>

theorem monthGrid_layout:
  assumes "0 \<le> month" "month \<le> 11" and "year < 0 \<or> 99 < year"
    and "resolvesLocalDay tza (daysSinceEpoch year month 1)"
    and "resolvesLocalDay tza (daysSinceEpoch year month (monthLength year month))"
  shows "renderCalendar tza year month today s =
           map DayNameCell dayNames @
           replicate (nat (weekdayIndex year month 1)) EmptyCell @
           map (\<lambda>day. DayCell (dayCell tza year month today s day)) [1..monthLength year month]
   \<and> 0 \<le> weekdayIndex year month 1 \<and> weekdayIndex year month 1 \<le> 6
   \<and> 28 \<le> monthLength year month \<and> monthLength year month \<le> 31
   \<and> (\<forall>day. entriesForDay (dayCell tza year month today s day) =
          existingEntries s (cellDateStr (dayCell tza year month today s day)))
   \<and> (1000 \<le> year \<and> year \<le> 9999 \<longrightarrow>
        (\<forall>day. 1 \<le> day \<and> day \<le> monthLength year month \<longrightarrow>
           cellDateStr (dayCell tza year month today s day) = isoDate year month day))"
proof -
  have fy: "fullYear year = year"
    using assms(3) by (auto simp: fullYear_def)
  have cells: "renderCalendar tza year month today s =
           map DayNameCell dayNames @
           replicate (nat (weekdayIndex year month 1)) EmptyCell @
           map (\<lambda>day. DayCell (dayCell tza year month today s day)) [1..monthLength year month]"
    using renderCalendar_cells [of month tza year today s] assms(1,2,4,5) by (simp only: fy)
  have iso: "dateStr year month day = isoDate year month day"
    if "1000 \<le> year" "year \<le> 9999" "1 \<le> day" "day \<le> monthLength year month" for day
    using that assms(1,2) monthLength_bounds(2) [of year month] by (intro dateStr_isoDate) simp_all
  show ?thesis
    using cells iso weekdayIndex_range [of year month 1] monthLength_bounds [of year month]
    by (simp add: dayCell_def Let_def existingEntries_def)
qed

text \<open>
  February 2024 in a zone one hour ahead of UTC: four empty cells (1 February 2024 is a
  Thursday), then the 29 days; the cell of the first carries \<open>2024-02-01\<close> and the one
  entry of that date.
\<close>

theorem monthGrid_layout_witness:
  "(0::int) \<le> 1 \<and> (1::int) \<le> 11 \<and> ((2024::int) < 0 \<or> (99::int) < 2024)
   \<and> resolvesLocalDay (fixedZone 3600000) (daysSinceEpoch 2024 1 1)
   \<and> resolvesLocalDay (fixedZone 3600000) (daysSinceEpoch 2024 1 (monthLength 2024 1))
   \<and> renderCalendar (fixedZone 3600000) 2024 1 0
        \<lparr>habits = [], entries = [\<lparr>habitId = js ''1'', date = js ''2024-02-01''\<rparr>,
                                  \<lparr>habitId = js ''1'', date = js ''2024-03-01''\<rparr>]\<rparr>
     = map DayNameCell dayNames @ replicate 4 EmptyCell @
       map (\<lambda>day. DayCell (dayCell (fixedZone 3600000) 2024 1 0
              \<lparr>habits = [], entries = [\<lparr>habitId = js ''1'', date = js ''2024-02-01''\<rparr>,
                                        \<lparr>habitId = js ''1'', date = js ''2024-03-01''\<rparr>]\<rparr> day)) [1..29]
   \<and> cellDateStr (dayCell (fixedZone 3600000) 2024 1 0
        \<lparr>habits = [], entries = [\<lparr>habitId = js ''1'', date = js ''2024-02-01''\<rparr>,
                                  \<lparr>habitId = js ''1'', date = js ''2024-03-01''\<rparr>]\<rparr> 1) = js ''2024-02-01''
   \<and> entriesForDay (dayCell (fixedZone 3600000) 2024 1 0
        \<lparr>habits = [], entries = [\<lparr>habitId = js ''1'', date = js ''2024-02-01''\<rparr>,
                                  \<lparr>habitId = js ''1'', date = js ''2024-03-01''\<rparr>]\<rparr> 1)
     = [\<lparr>habitId = js ''1'', date = js ''2024-02-01''\<rparr>]"
proof -
  have w: "weekdayIndex 2024 1 1 = 4"
    by (simp add: weekdayIndex_def daysSinceEpoch_def daysBeforeMonth_table DayFromYear_def)
  have l: "monthLength 2024 1 = 29"
    by (simp add: monthLength_def isLeapYear_def)
  have i: "isoDate 2024 1 1 = js ''2024-02-01''"
    by (simp add: isoDate_def zeroPadded_2 zeroPadded_4 js_def)
  have h: "(0::int) \<le> 1" "(1::int) \<le> 11" "(2024::int) < 0 \<or> (99::int) < 2024"
    by simp_all
  have r: "resolvesLocalDay (fixedZone 3600000) (daysSinceEpoch 2024 1 1)"
    "resolvesLocalDay (fixedZone 3600000) (daysSinceEpoch 2024 1 (monthLength 2024 1))"
    by (simp_all add: fixedZone_resolves daysSinceEpoch_def daysBeforeMonth_table DayFromYear_def
        monthLength_def isLeapYear_def msPerDay_def)
  have c: "cellDateStr (dayCell (fixedZone 3600000) 2024 1 0
        \<lparr>habits = [], entries = [\<lparr>habitId = js ''1'', date = js ''2024-02-01''\<rparr>,
                                  \<lparr>habitId = js ''1'', date = js ''2024-03-01''\<rparr>]\<rparr> 1) = js ''2024-02-01''"
    using monthGrid_layout [OF h r, of 0
        "\<lparr>habits = [], entries = [\<lparr>habitId = js ''1'', date = js ''2024-02-01''\<rparr>,
                                  \<lparr>habitId = js ''1'', date = js ''2024-03-01''\<rparr>]\<rparr>"]
    by (simp add: l i)
  show ?thesis
    using r monthGrid_layout [OF h r, of 0
        "\<lparr>habits = [], entries = [\<lparr>habitId = js ''1'', date = js ''2024-02-01''\<rparr>,
                                  \<lparr>habitId = js ''1'', date = js ''2024-03-01''\<rparr>]\<rparr>"]
    by (simp add: w l c existingEntries_def) (simp add: js_def)
qed

text \<open>
  The claim as stated fails where the time zone leaves out a day of the month, and for
  the years that four digits cannot hold. For December 1994 in the zone that left out
  the 31st, the grid has four empty cells and the cell of one day, while the month has 31
  days. In January 10000 the cell of the first day carries \<open>10000-01-01\<close>.
\<close>

theorem monthGrid_counterexample:
  "renderCalendar lineIslandsZone 1994 11 0 DEFAULT_SETTINGS
     = map DayNameCell dayNames @ replicate 4 EmptyCell @
       [DayCell (dayCell lineIslandsZone 1994 11 0 DEFAULT_SETTINGS 1)]
   \<and> monthLength 1994 11 = 31
   \<and> cellDateStr (dayCell lineIslandsZone 10000 0 0 DEFAULT_SETTINGS 1) = js ''10000-01-01''"
proof -
  have a: "renderCalendar lineIslandsZone 1994 11 0 DEFAULT_SETTINGS
     = map DayNameCell dayNames @ replicate 4 EmptyCell @
       [DayCell (dayCell lineIslandsZone 1994 11 0 DEFAULT_SETTINGS 1)]"
    using lineIslands_lastDay lineIslands_firstDay
    by (simp add: renderCalendar_def Let_def emptyCells_replicate dayCells_map)
  have b: "monthLength 1994 11 = 31"
    by (simp add: monthLength_def)
  have c: "cellDateStr (dayCell lineIslandsZone 10000 0 0 DEFAULT_SETTINGS 1) = js ''10000-01-01''"
    by (simp add: dayCell_def Let_def dateStr_def numberToString_def digits.simps padStart_def js_def)
  show ?thesis using a b c by (simp only: simp_thms)
qed

text \<open>
  The years that the amended claim says nothing of. A year from 0 to 99 is laid out as
  the year of the twentieth century that the constructor takes it for: February of the
  year 0 gets the four empty cells and the 28 days of February 1900, while February of
  the leap year 0 has 29 days and begins on a Tuesday. A year below 1000 prints in fewer
  than four digits: the first day of January 999 carries \<open>999-01-01\<close>.
\<close>

lemma two_digit_year_layout:
  "renderCalendar (fixedZone 0) 0 1 0 DEFAULT_SETTINGS
     = map DayNameCell dayNames @ replicate 4 EmptyCell @
       map (\<lambda>day. DayCell (dayCell (fixedZone 0) 0 1 0 DEFAULT_SETTINGS day)) [1..28]
   \<and> weekdayIndex 0 1 1 = 2 \<and> monthLength 0 1 = 29"
proof -
  have w: "weekdayIndex 1900 1 1 = 4" "weekdayIndex 0 1 1 = 2"
    by (simp_all add: weekdayIndex_def daysSinceEpoch_def daysBeforeMonth_table DayFromYear_def)
  have l: "monthLength 1900 1 = 28" "monthLength 0 1 = 29"
    by (simp_all add: monthLength_def isLeapYear_def)
  have r: "resolvesLocalDay (fixedZone 0) (daysSinceEpoch (fullYear 0) 1 1)"
    "resolvesLocalDay (fixedZone 0) (daysSinceEpoch (fullYear 0) 1 (monthLength (fullYear 0) 1))"
    by (simp_all add: fixedZone_resolves fullYear_def daysSinceEpoch_def daysBeforeMonth_table
        DayFromYear_def l msPerDay_def)
  show ?thesis
    using renderCalendar_cells [OF _ _ r, of 0 DEFAULT_SETTINGS] by (simp add: fullYear_def w l)
qed

lemma year_below_1000_unpadded:
  "cellDateStr (dayCell tza 999 0 today s 1) = js ''999-01-01'' \<and> isoDate 999 0 1 = js ''0999-01-01''"
  by (simp add: dayCell_def Let_def dateStr_def numberToString_def digits.simps padStart_def
      isoDate_def zeroPadded_2 zeroPadded_4 js_def)

text \<open>
  At the start of the range of Date the first day of the month may be out of range while
  the month is shown: in April -271821, whose days from the 20th on are valid Dates, the
  day of the week of the first day is \<open>NaN\<close> and the grid has no empty cell.
\<close>

lemma out_of_range_first_day:
  "renderCalendar (fixedZone 0) (- 271821) 3 0 DEFAULT_SETTINGS
     = map DayNameCell dayNames @
       map (\<lambda>day. DayCell (dayCell (fixedZone 0) (- 271821) 3 0 DEFAULT_SETTINGS day)) [1..30]"
proof -
  have "newDate (fixedZone 0) (- 271821) 3 1 = None"
    using MakeDay_first [of 3 "- 271821"]
    by (simp add: newDate_def TimeClip_def UTC_def MakeDate_def fullYear_def fixedZone_def
        daysSinceEpoch_def daysBeforeMonth_table DayFromYear_def msPerDay_def)
  then have a: "getDay (fixedZone 0) (newDate (fixedZone 0) (- 271821) 3 1) = None"
    by (simp add: getDay_def)
  have l: "monthLength (- 271821) 3 = 30"
    by (simp add: monthLength_def)
  have "resolvesLocalDay (fixedZone 0) (daysSinceEpoch (fullYear (- 271821)) 3 (monthLength (fullYear (- 271821)) 3))"
    by (simp add: fixedZone_resolves fullYear_def daysSinceEpoch_def daysBeforeMonth_table
        DayFromYear_def l msPerDay_def)
  from getDate_lastDay [OF _ _ this]
  have b: "getDate (fixedZone 0) (newDate (fixedZone 0) (- 271821) (3 + 1) 0) = Some 30"
    by (simp add: fullYear_def l)
  show ?thesis
    using a b by (simp add: renderCalendar_def Let_def dayCells_map)
qed

section \<open>The monthly count\<close>

lemma monthStart_dateStr: "monthStart year month = dateStr year month 1"
  by (simp add: monthStart_def dateStr_def padStart_def numberToString_def digits.simps js_def)

lemma monthEnd_lastDay:
  "getDate tza (newDate tza year (month + 1) 0) = Some lastDay \<Longrightarrow>
   monthEnd tza year month = dateStr year month lastDay"
  by (simp add: monthEnd_def dateStr_def numberOrNaNToString_def Let_def)

lemma monthEnd_dateStr:
  assumes "0 \<le> month" "month \<le> 11"
    and "resolvesLocalDay tza (daysSinceEpoch (fullYear year) month (monthLength (fullYear year) month))"
  shows "monthEnd tza year month = dateStr year month (monthLength (fullYear year) month)"
  by (rule monthEnd_lastDay) (rule getDate_lastDay [OF assms])

text \<open>
  Claim C7, as amended. Take a month from 0 to 11 of a year other than 0, in a time zone
  where the runtime resolves the last day of the month as the code builds it. The count
  shown for a habit is the number of entries with the habit's id whose date string lies
  between the date string of the first day of the month and that of its last day, both
  included, the last day being the length of the month in the calendar.
\<close>

theorem monthlyCount_range:
  assumes "0 \<le> month" "month \<le> 11" and "year \<noteq> 0"
    and "resolvesLocalDay tza (daysSinceEpoch (fullYear year) month (monthLength year month))"
  shows "monthlyCount tza s habit year month =
     length (filter (\<lambda>e. habitId e = id' habit
                       \<and> dateStr year month 1 \<le> date e
                       \<and> date e \<le> dateStr year month (monthLength year month)) (entries s))"
proof -
  have l: "monthLength (fullYear year) month = monthLength year month"
    using assms(3) by (rule monthLength_fullYear)
  have "monthEnd tza year month = dateStr year month (monthLength year month)"
    using monthEnd_dateStr [OF assms(1,2), of tza year] assms(4) by (simp only: l)
  then show ?thesis
    by (simp add: monthlyCount_def monthStart_dateStr)
qed

text \<open>
  The example of the specification, in a zone one hour ahead of UTC: entries on
  2024-01-01, 2024-01-31 and 2024-02-01 give the count 2 for January 2024.
\<close>

theorem monthlyCount_range_witness:
  "(0::int) \<le> 0 \<and> (0::int) \<le> 11 \<and> (2024::int) \<noteq> 0
   \<and> resolvesLocalDay (fixedZone 3600000) (daysSinceEpoch (fullYear 2024) 0 (monthLength 2024 0))
   \<and> monthlyCount (fixedZone 3600000)
        \<lparr>habits = [\<lparr>id' = js ''1'', name = js ''Run'', icon = js ''zap'', color = js ''#fff''\<rparr>],
         entries = [\<lparr>habitId = js ''1'', date = js ''2024-01-01''\<rparr>,
                    \<lparr>habitId = js ''1'', date = js ''2024-01-31''\<rparr>,
                    \<lparr>habitId = js ''1'', date = js ''2024-02-01''\<rparr>]\<rparr>
        \<lparr>id' = js ''1'', name = js ''Run'', icon = js ''zap'', color = js ''#fff''\<rparr> 2024 0 = 2"
proof -
  have l: "monthLength 2024 0 = 31"
    by (simp add: monthLength_def)
  have d: "dateStr 2024 0 1 = js ''2024-01-01''" "dateStr 2024 0 31 = js ''2024-01-31''"
    by (simp_all add: dateStr_def numberToString_def digits.simps padStart_def js_def)
  have h: "(0::int) \<le> 0" "(0::int) \<le> 11" "(2024::int) \<noteq> 0"
    by simp_all
  have r: "resolvesLocalDay (fixedZone 3600000) (daysSinceEpoch (fullYear 2024) 0 (monthLength 2024 0))"
    by (simp add: fixedZone_resolves fullYear_def daysSinceEpoch_def daysBeforeMonth_table
        DayFromYear_def l msPerDay_def)
  show ?thesis
    using r monthlyCount_range [OF h r, of
        "\<lparr>habits = [\<lparr>id' = js ''1'', name = js ''Run'', icon = js ''zap'', color = js ''#fff''\<rparr>],
         entries = [\<lparr>habitId = js ''1'', date = js ''2024-01-01''\<rparr>,
                    \<lparr>habitId = js ''1'', date = js ''2024-01-31''\<rparr>,
                    \<lparr>habitId = js ''1'', date = js ''2024-02-01''\<rparr>]\<rparr>"
        "\<lparr>id' = js ''1'', name = js ''Run'', icon = js ''zap'', color = js ''#fff''\<rparr>"]
    by (simp add: l d) (simp add: js_def)
qed

text \<open>
  The claim as stated fails where the time zone leaves out a day of the month. For
  December 1994 in the zone that left out the 31st, the upper bound is \<open>1994-12-01\<close>,
  and an entry dated \<open>1994-12-02\<close>, as the picker of a host in another zone writes it,
  lies between the date strings of the first and the last day of the month and is not
  counted.
\<close>

theorem monthlyCount_counterexample:
  "monthlyCount lineIslandsZone
      \<lparr>habits = [\<lparr>id' = js ''1'', name = js ''Run'', icon = js ''zap'', color = js ''#fff''\<rparr>],
       entries = [\<lparr>habitId = js ''1'', date = js ''1994-12-02''\<rparr>]\<rparr>
      \<lparr>id' = js ''1'', name = js ''Run'', icon = js ''zap'', color = js ''#fff''\<rparr> 1994 11 = 0
   \<and> monthEnd lineIslandsZone 1994 11 = js ''1994-12-01''
   \<and> monthLength 1994 11 = 31
   \<and> length (filter (\<lambda>e. habitId e = js ''1'' \<and> dateStr 1994 11 1 \<le> date e
                         \<and> date e \<le> dateStr 1994 11 (monthLength 1994 11))
        [\<lparr>habitId = js ''1'', date = js ''1994-12-02''\<rparr>]) = 1"
proof -
  have l: "monthLength 1994 11 = 31"
    by (simp add: monthLength_def)
  have d: "dateStr 1994 11 1 = js ''1994-12-01''" "dateStr 1994 11 31 = js ''1994-12-31''"
    by (simp_all add: dateStr_def numberToString_def digits.simps padStart_def js_def)
  have e: "monthEnd lineIslandsZone 1994 11 = js ''1994-12-01''"
    using monthEnd_lastDay [OF lineIslands_lastDay] by (simp add: d)
  have s: "monthStart 1994 11 = js ''1994-12-01''"
    by (simp add: monthStart_dateStr d)
  have c: "\<not> js ''1994-12-02'' \<le> js ''1994-12-01''" "js ''1994-12-01'' \<le> js ''1994-12-02''"
    "js ''1994-12-02'' \<le> js ''1994-12-31''"
    by (simp_all add: js_def)
  show ?thesis
    by (simp add: monthlyCount_def e s l d c)
qed

text \<open>
  The year that the amended claim says nothing of: for the year 0 the constructor builds
  dates of 1900, and the upper bound of February is \<open>0-02-28\<close> though February of the
  leap year 0 has 29 days. Past the range of Date the last day is \<open>NaN\<close>, and so is the
  end of the upper bound.
\<close>

lemma year_zero_february: "monthEnd (fixedZone 0) 0 1 = js ''0-02-28'' \<and> monthLength 0 1 = 29"
proof -
  have l: "monthLength 1900 1 = 28" "monthLength 0 1 = 29"
    by (simp_all add: monthLength_def isLeapYear_def)
  have r: "resolvesLocalDay (fixedZone 0) (daysSinceEpoch (fullYear 0) 1 (monthLength (fullYear 0) 1))"
    by (simp add: fixedZone_resolves fullYear_def daysSinceEpoch_def daysBeforeMonth_table
        DayFromYear_def l msPerDay_def)
  have d: "dateStr 0 1 28 = js ''0-02-28''"
    by (simp add: dateStr_def numberToString_def digits.simps padStart_def js_def)
  show ?thesis
    using monthEnd_dateStr [OF _ _ r] by (simp add: fullYear_def l d)
qed

lemma out_of_range_month_end: "monthEnd (fixedZone 0) 275760 8 = js ''275760-09-NaN''"
proof -
  have "getDate (fixedZone 0) (newDate (fixedZone 0) 275760 (8 + 1) 0) = None"
    by (simp add: date_eval fixedZone_def)
  then show ?thesis
    by (simp add: monthEnd_def Let_def numberOrNaNToString_def numberToString_def digits.simps
        padStart_def js_def)
qed



end
